theory Spec2Isabelle
  imports Complex_Main "HOL-Library.AList"
begin

section \<open>Python values used by the store functions\<close>

text \<open>
  Every tool function of \<^verbatim>\<open>store_functions.py\<close> builds a dict \<^verbatim>\<open>result\<close> and returns
  \<^verbatim>\<open>json.dumps(result)\<close>. The model returns the dict itself as a value of type \<open>json\<close>;
  \<^verbatim>\<open>json.loads(json.dumps(d))\<close>, which the composite functions apply to the answer of an
  inner call, is the identity on such values (the payload of \<open>JFloat\<close>, a number that is
  not an integer, plays no part anywhere). A Python dict is an association list
  (insertion order is kept, assignment to an existing key keeps its place:
  \<open>AList.update\<close>), looked up with \<open>map_of\<close>.
\<close>

datatype json =
    JNull
  | JBool bool
  | JInt int
  | JFloat real
  | JStr string
  | JList "json list"
  | JObj "(string \<times> json) list"

datatype py_error = KeyError string | TypeError | AttributeError

definition has_key :: "(string \<times> 'v) list \<Rightarrow> string \<Rightarrow> bool" where
  "has_key d k = (map_of d k \<noteq> None)"

definition subscript :: "(string \<times> 'v) list \<Rightarrow> string \<Rightarrow> py_error + 'v" where
  "subscript d k = (case map_of d k of None \<Rightarrow> Inl (KeyError k) | Some v \<Rightarrow> Inr v)"

fun obj_get :: "json \<Rightarrow> string \<Rightarrow> json option" where
  "obj_get (JObj kvs) k = map_of kvs k"
| "obj_get _ k = None"

definition is_error :: "json \<Rightarrow> bool" where
  "is_error data = (obj_get data ''error'' \<noteq> None)"

text \<open>The text of the \<^verbatim>\<open>error\<close> member, which these functions always build as a string.\<close>

definition error_text :: "json \<Rightarrow> string" where
  "error_text data = (case obj_get data ''error'' of Some (JStr m) \<Rightarrow> m | _ \<Rightarrow> [])"

fun str_nat :: "nat \<Rightarrow> string" where
  "str_nat n =
     (if n < 10 then [char_of (48 + n)]
      else str_nat (n div 10) @ [char_of (48 + n mod 10)])"

declare str_nat.simps [simp del]

definition str_int :: "int \<Rightarrow> string" where
  "str_int i = (if i < 0 then CHR ''-'' # str_nat (nat (- i)) else str_nat (nat i))"

definition ljust :: "nat \<Rightarrow> string \<Rightarrow> string" where
  "ljust n s = s @ replicate (n - length s) CHR '' ''"

fun join :: "string \<Rightarrow> string list \<Rightarrow> string" where
  "join sep [] = []"
| "join sep [x] = x"
| "join sep (x # y # ys) = x @ sep @ join sep (y # ys)"

text \<open>\<^verbatim>\<open>str.strip()\<close>: the white space of Python among the 8-bit characters.\<close>

definition is_space :: "char \<Rightarrow> bool" where
  "is_space c =
     (let n = (of_char c :: nat)
      in (9 \<le> n \<and> n \<le> 13) \<or> (28 \<le> n \<and> n \<le> 32) \<or> n = 133 \<or> n = 160)"

definition strip :: "string \<Rightarrow> string" where
  "strip s = rev (dropWhile is_space (rev (dropWhile is_space s)))"

text \<open>\<^verbatim>\<open>list.index(x)\<close>: the first position of \<open>x\<close>; \<open>None\<close> stands for \<^verbatim>\<open>ValueError\<close>.\<close>

fun index_of :: "'a \<Rightarrow> 'a list \<Rightarrow> nat option" where
  "index_of x [] = None"
| "index_of x (y # ys) =
     (if y = x then Some 0
      else (case index_of x ys of None \<Rightarrow> None | Some i \<Rightarrow> Some (Suc i)))"

section \<open>The inventory store\<close>

text \<open>
  The three module-level tables. An item dict has the keys \<^verbatim>\<open>name\<close> and \<^verbatim>\<open>stock\<close>; the
  code reads \<^verbatim>\<open>category\<close>, \<^verbatim>\<open>location_id\<close> and \<^verbatim>\<open>position\<close> with \<^verbatim>\<open>.get\<close>, so they are
  optional here (\<open>None\<close>: the key is absent). The fields carry a prefix because the
  functions have parameters of the same names. An item dict and a request dict are never
  empty, so the tests \<^verbatim>\<open>if item:\<close> and \<^verbatim>\<open>if request:\<close> ask whether the key was found. A
  subscript of a table raises \<^verbatim>\<open>KeyError\<close> on a missing key; an answer is therefore the
  returned object or the error raised, together with the store as the call leaves it.
\<close>

record item =
  item_name :: string
  item_stock :: int
  item_category :: "string option"
  item_location_id :: "string option"
  item_position :: "int option"

record request =
  req_item_id :: string
  req_quantity :: int
  req_target_location :: string
  req_status :: string

type_synonym layout = "string option list list"

record store =
  inventory :: "(string \<times> item) list"
  shelf_layouts :: "(string \<times> layout) list"
  storage_requests :: "(string \<times> request) list"

subsection \<open>The tables as the module initialises them\<close>

definition fixture_inventory :: "(string \<times> item) list" where
  "fixture_inventory =
     [(''SKU001'', \<lparr>item_name = ''Contoso Cereal'', item_stock = 15, item_category = Some ''Breakfast'',
         item_location_id = Some ''A1'', item_position = Some 1\<rparr>),
      (''SKU002'', \<lparr>item_name = ''Northwind Oatmeal'', item_stock = 12, item_category = Some ''Breakfast'',
         item_location_id = Some ''A1'', item_position = Some 2\<rparr>),
      (''SKU003'', \<lparr>item_name = ''Adventure Granola'', item_stock = 8, item_category = Some ''Breakfast'',
         item_location_id = Some ''A2'', item_position = Some 0\<rparr>),
      (''SKU004'', \<lparr>item_name = ''Fabrikam Pancake Mix'', item_stock = 10, item_category = Some ''Breakfast'',
         item_location_id = Some ''A2'', item_position = Some 1\<rparr>),
      (''SKU010'', \<lparr>item_name = ''Fabrikam Milk (1L)'', item_stock = 20, item_category = Some ''Dairy'',
         item_location_id = Some ''B1'', item_position = Some 0\<rparr>),
      (''SKU011'', \<lparr>item_name = ''Contoso Yogurt'', item_stock = 18, item_category = Some ''Dairy'',
         item_location_id = Some ''B1'', item_position = Some 1\<rparr>),
      (''SKU012'', \<lparr>item_name = ''Adventure Cheese'', item_stock = 15, item_category = Some ''Dairy'',
         item_location_id = Some ''B2'', item_position = Some 0\<rparr>),
      (''SKU013'', \<lparr>item_name = ''Northwind Butter'', item_stock = 12, item_category = Some ''Dairy'',
         item_location_id = Some ''B2'', item_position = Some 1\<rparr>),
      (''SKU020'', \<lparr>item_name = ''Northwind Cola (Can)'', item_stock = 48, item_category = Some ''Drinks'',
         item_location_id = Some ''C1'', item_position = Some 0\<rparr>),
      (''SKU021'', \<lparr>item_name = ''Adventure Water (1L)'', item_stock = 36, item_category = Some ''Drinks'',
         item_location_id = Some ''C1'', item_position = Some 1\<rparr>),
      (''SKU022'', \<lparr>item_name = ''Fabrikam Juice (2L)'', item_stock = 15, item_category = Some ''Drinks'',
         item_location_id = Some ''C2'', item_position = Some 0\<rparr>),
      (''SKU023'', \<lparr>item_name = ''Contoso Energy Drink'', item_stock = 24, item_category = Some ''Drinks'',
         item_location_id = Some ''C2'', item_position = Some 1\<rparr>),
      (''SKU030'', \<lparr>item_name = ''Adatum Apples (Bag)'', item_stock = 20, item_category = Some ''Produce'',
         item_location_id = Some ''P1'', item_position = Some 0\<rparr>),
      (''SKU031'', \<lparr>item_name = ''Fabrikam Bananas'', item_stock = 25, item_category = Some ''Produce'',
         item_location_id = Some ''P1'', item_position = Some 1\<rparr>),
      (''SKU032'', \<lparr>item_name = ''Contoso Oranges (Net)'', item_stock = 15, item_category = Some ''Produce'',
         item_location_id = Some ''P2'', item_position = Some 0\<rparr>),
      (''SKU033'', \<lparr>item_name = ''Northwind Carrots'', item_stock = 18, item_category = Some ''Produce'',
         item_location_id = Some ''P2'', item_position = Some 1\<rparr>),
      (''SKU040'', \<lparr>item_name = ''Woodgrove Cleaning Spray'', item_stock = 14, item_category = Some ''Household'',
         item_location_id = Some ''H1'', item_position = Some 0\<rparr>),
      (''SKU041'', \<lparr>item_name = ''Adventure Paper Towels'', item_stock = 22, item_category = Some ''Household'',
         item_location_id = Some ''H1'', item_position = Some 1\<rparr>),
      (''SKU042'', \<lparr>item_name = ''Contoso Dish Soap'', item_stock = 16, item_category = Some ''Household'',
         item_location_id = Some ''H2'', item_position = Some 0\<rparr>),
      (''SKU043'', \<lparr>item_name = ''Fabrikam Laundry Det.'', item_stock = 10, item_category = Some ''Household'',
         item_location_id = Some ''H2'', item_position = Some 1\<rparr>)]"

definition fixture_shelf_layouts :: "(string \<times> layout) list" where
  "fixture_shelf_layouts =
     [(''A1'',
        [[Some ''SKU001'', Some ''SKU001'', Some ''SKU002''],
         [Some ''SKU001'', Some ''SKU002'', Some ''SKU002''],
         [Some ''SKU001'', Some ''SKU002'', None],
         [None, None, None]]),
      (''A2'',
        [[Some ''SKU003'', Some ''SKU003'', Some ''SKU004''],
         [Some ''SKU003'', Some ''SKU004'', Some ''SKU004''],
         [Some ''SKU004'', None, None],
         [None, None, None]]),
      (''B1'',
        [[Some ''SKU010'', Some ''SKU010'', Some ''SKU011''],
         [Some ''SKU010'', Some ''SKU011'', Some ''SKU011''],
         [Some ''SKU010'', Some ''SKU011'', None],
         [Some ''SKU010'', None, None]]),
      (''B2'',
        [[Some ''SKU012'', Some ''SKU012'', Some ''SKU013''],
         [Some ''SKU012'', Some ''SKU013'', Some ''SKU013''],
         [Some ''SKU012'', Some ''SKU013'', None],
         [None, None, None]]),
      (''C1'',
        [[Some ''SKU020'', Some ''SKU020'', Some ''SKU021''],
         [Some ''SKU020'', Some ''SKU021'', Some ''SKU021''],
         [Some ''SKU020'', Some ''SKU021'', None],
         [Some ''SKU020'', Some ''SKU021'', None]]),
      (''C2'',
        [[Some ''SKU022'', Some ''SKU022'', Some ''SKU023''],
         [Some ''SKU022'', Some ''SKU023'', Some ''SKU023''],
         [Some ''SKU022'', Some ''SKU023'', None],
         [None, None, None]]),
      (''C3'',
        [[Some ''SKU022'', Some ''SKU022'', Some ''SKU023''],
         [Some ''SKU022'', Some ''SKU023'', Some ''SKU023''],
         [Some ''SKU022'', Some ''SKU023'', None],
         [None, None, None]]),
      (''P1'',
        [[Some ''SKU030'', Some ''SKU030'', Some ''SKU031''],
         [Some ''SKU030'', Some ''SKU031'', Some ''SKU031''],
         [Some ''SKU030'', Some ''SKU031'', None],
         [None, None, None]]),
      (''P2'',
        [[Some ''SKU032'', Some ''SKU032'', Some ''SKU033''],
         [Some ''SKU032'', Some ''SKU033'', Some ''SKU033''],
         [Some ''SKU032'', Some ''SKU033'', None],
         [None, None, None]]),
      (''H1'',
        [[Some ''SKU040'', Some ''SKU040'', Some ''SKU041''],
         [Some ''SKU040'', Some ''SKU041'', Some ''SKU041''],
         [Some ''SKU040'', Some ''SKU041'', None],
         [Some ''SKU040'', None, None]]),
      (''H2'',
        [[Some ''SKU042'', Some ''SKU042'', Some ''SKU043''],
         [Some ''SKU042'', Some ''SKU043'', Some ''SKU043''],
         [Some ''SKU042'', Some ''SKU043'', None],
         [Some ''SKU042'', None, None]])]"

definition initial_store :: store where
  "initial_store =
     \<lparr>inventory = fixture_inventory, shelf_layouts = fixture_shelf_layouts,
      storage_requests = []\<rparr>"

type_synonym answer = "(py_error + json) \<times> store"

definition error_obj :: "string \<Rightarrow> json" where
  "error_obj m = JObj [(''error'', JStr m)]"

subsection \<open>Queries\<close>

definition check_item_stock :: "string \<Rightarrow> store \<Rightarrow> answer" where
  "check_item_stock item_id s =
     (case map_of (inventory s) item_id of
        Some item \<Rightarrow>
          (Inr (JObj [(''item_id'', JStr item_id), (''name'', JStr (item_name item)),
                      (''stock'', JInt (item_stock item))]), s)
      | None \<Rightarrow> (Inr (error_obj (''Item ID '' @ item_id @ '' not found.'')), s))"

definition find_item_location :: "string \<Rightarrow> store \<Rightarrow> answer" where
  "find_item_location item_id s =
     (case map_of (inventory s) item_id of
        Some item \<Rightarrow>
          (case item_location_id item of
             Some loc \<Rightarrow>
               if loc \<noteq> [] then
                 (Inr (JObj [(''item_id'', JStr item_id), (''name'', JStr (item_name item)),
                             (''location_id'', JStr loc),
                             (''position'',
                                (case item_position item of Some p \<Rightarrow> JInt p
                                 | None \<Rightarrow> JStr ''N/A''))]), s)
               else (Inr (error_obj (''Location for Item ID '' @ item_id @ '' not defined.'')), s)
           | None \<Rightarrow>
               (Inr (error_obj (''Location for Item ID '' @ item_id @ '' not defined.'')), s))
      | None \<Rightarrow> (Inr (error_obj (''Item ID '' @ item_id @ '' not found.'')), s))"

definition render_slot :: "(string \<times> item) list \<Rightarrow> string option \<Rightarrow> string" where
  "render_slot invt slot =
     (case slot of
        Some item_id \<Rightarrow>
          if item_id \<noteq> [] then
            (case map_of invt item_id of
               Some item \<Rightarrow> ljust 20 (take 20 (item_name item))
             | None \<Rightarrow> ljust 20 (take 20 item_id))
          else ljust 20 ''Empty''
      | None \<Rightarrow> ljust 20 ''Empty'')"

fun render_rows :: "(string \<times> item) list \<Rightarrow> nat \<Rightarrow> layout \<Rightarrow> string" where
  "render_rows invt i [] = []"
| "render_rows invt i (shelf # rest) =
     ''| Shelf '' @ str_nat (i + 1) @ '' | '' @ join '' | '' (map (render_slot invt) shelf)
       @ '' |'' @ [CHR 0x0A] @ render_rows invt (Suc i) rest"

definition get_shelf_layout :: "string \<Rightarrow> store \<Rightarrow> answer" where
  "get_shelf_layout shelf_id s =
     (case map_of (shelf_layouts s) shelf_id of
        Some layout \<Rightarrow>
          if layout \<noteq> [] then
            (let representation =
                   ''### Layout for Shelf '' @ shelf_id @ [CHR 0x0A, CHR 0x0A]
                   @ ''| Position | 1 | 2 | 3 |'' @ [CHR 0x0A]
                   @ ''|----------|---|---|---|'' @ [CHR 0x0A]
                   @ render_rows (inventory s) 0 layout
             in (Inr (JObj [(''shelf_id'', JStr shelf_id),
                            (''layout_visual'', JStr (strip representation))]), s))
          else (Inr (error_obj (''Shelf ID '' @ shelf_id @ '' not found.'')), s)
      | None \<Rightarrow> (Inr (error_obj (''Shelf ID '' @ shelf_id @ '' not found.'')), s))"

definition low_stock_entry :: "string \<times> item \<Rightarrow> json" where
  "low_stock_entry p =
     JObj [(''item_id'', JStr (fst p)), (''name'', JStr (item_name (snd p))),
           (''current_stock'', JInt (item_stock (snd p))),
           (''location_id'',
              JStr (case item_location_id (snd p) of Some l \<Rightarrow> l | None \<Rightarrow> ''N/A''))]"

definition get_items_needing_restock :: "string option \<Rightarrow> int \<Rightarrow> store \<Rightarrow> answer" where
  "get_items_needing_restock category min_stock_level s =
     (let low_stock_items =
            map low_stock_entry
              (filter (\<lambda>p. item_stock (snd p) < min_stock_level
                          \<and> (category = None \<or> item_category (snd p) = category))
                 (inventory s))
      in (Inr (JObj [(''low_stock_items'', JList low_stock_items),
                     (''count'', JInt (int (length low_stock_items)))]), s))"

definition get_store_layout_overview :: "store \<Rightarrow> answer" where
  "get_store_layout_overview s =
     (let shelf_ids = map fst (shelf_layouts s)
      in (Inr (JObj [(''shelf_ids'', JList (map JStr shelf_ids)),
                     (''count'', JInt (int (length shelf_ids)))]), s))"

subsection \<open>Storage requests\<close>

text \<open>
  \<open>draw\<close> is the number \<^verbatim>\<open>random.randint(1000, 9999)\<close> returns in this call. The request
  is stored with a plain dict assignment, whatever the table holds under that key.
\<close>

definition request_item_from_storage ::
    "string \<Rightarrow> int \<Rightarrow> string \<Rightarrow> int \<Rightarrow> store \<Rightarrow> answer" where
  "request_item_from_storage item_id quantity target_location_id draw s =
     (if \<not> has_key (inventory s) item_id then
        (Inr (error_obj (''Item ID '' @ item_id @ '' not found in inventory system.'')), s)
      else if \<not> has_key (shelf_layouts s) target_location_id then
        (Inr (error_obj (''Target Shelf ID '' @ target_location_id @ '' does not exist.'')), s)
      else if quantity \<le> 0 then
        (Inr (error_obj ''Quantity must be positive.''), s)
      else
        (let request_id = ''REQ'' @ str_int draw;
             s' = s\<lparr>storage_requests :=
                      AList.update request_id
                        \<lparr>req_item_id = item_id, req_quantity = quantity,
                         req_target_location = target_location_id, req_status = ''Pending''\<rparr>
                        (storage_requests s)\<rparr>
         in (case subscript (inventory s') item_id of
               Inl e \<Rightarrow> (Inl e, s')
             | Inr item \<Rightarrow>
                 (Inr (JObj [(''request_id'', JStr request_id), (''status'', JStr ''Pending''),
                             (''message'',
                                JStr (''Request '' @ request_id @ '' created for ''
                                      @ str_int quantity @ '' of '' @ item_name item
                                      @ '' to shelf '' @ target_location_id @ ''.''))]), s'))))"

definition request_json :: "request \<Rightarrow> json" where
  "request_json r =
     JObj [(''item_id'', JStr (req_item_id r)), (''quantity'', JInt (req_quantity r)),
           (''target_location'', JStr (req_target_location r)),
           (''status'', JStr (req_status r))]"

text \<open>
  \<open>u1\<close> and \<open>u2\<close> are the values \<^verbatim>\<open>random.random()\<close> returns at its first and its second
  call site; \<^verbatim>\<open>and\<close> evaluates the draw only when the status test holds, and the
  \<^verbatim>\<open>elif\<close> is reached only when the first condition is false.
\<close>

definition check_delivery_status :: "string \<Rightarrow> real \<Rightarrow> real \<Rightarrow> store \<Rightarrow> answer" where
  "check_delivery_status request_id u1 u2 s =
     (case map_of (storage_requests s) request_id of
        Some request \<Rightarrow>
          (let request' =
                 (if req_status request = ''Pending'' \<and> 0.7 < u1 then
                    request\<lparr>req_status := ''In Transit''\<rparr>
                  else if req_status request = ''In Transit'' \<and> 0.5 < u2 then
                    request\<lparr>req_status := ''Delivered''\<rparr>
                  else request);
               s' = s\<lparr>storage_requests :=
                        AList.update request_id request' (storage_requests s)\<rparr>
           in (Inr (JObj [(''request_id'', JStr request_id),
                          (''status'', JStr (req_status request')),
                          (''details'', request_json request')]), s'))
      | None \<Rightarrow> (Inr (error_obj (''Request ID '' @ request_id @ '' not found.'')), s))"

subsection \<open>Stock and shelf mutations\<close>

definition update_inventory_count :: "string \<Rightarrow> int \<Rightarrow> string \<Rightarrow> store \<Rightarrow> answer" where
  "update_inventory_count item_id quantity_change reason s =
     (case map_of (inventory s) item_id of
        Some item \<Rightarrow>
          (let original_stock = item_stock item;
               added = original_stock + quantity_change;
               new_stock = (if added < 0 then 0 else added);
               s' = s\<lparr>inventory :=
                        AList.update item_id (item\<lparr>item_stock := new_stock\<rparr>) (inventory s)\<rparr>
           in (Inr (JObj [(''item_id'', JStr item_id), (''name'', JStr (item_name item)),
                          (''previous_stock'', JInt original_stock),
                          (''new_stock'', JInt new_stock),
                          (''change'', JInt quantity_change),
                          (''reason'', JStr reason)]), s'))
      | None \<Rightarrow> (Inr (error_obj (''Item ID '' @ item_id @ '' not found.'')), s))"

text \<open>The slot write \<^verbatim>\<open>shelf_layouts[shelf_id][shelf_index][position_index] = item_id\<close>.\<close>

definition write_slot :: "string \<Rightarrow> nat \<Rightarrow> nat \<Rightarrow> string \<Rightarrow> store \<Rightarrow> store" where
  "write_slot shelf_id r p item_id s =
     (case map_of (shelf_layouts s) shelf_id of
        Some layout \<Rightarrow>
          s\<lparr>shelf_layouts :=
               AList.update shelf_id (layout[r := (layout ! r)[p := Some item_id]])
                 (shelf_layouts s)\<rparr>
      | None \<Rightarrow> s)"

definition slot_name :: "string \<Rightarrow> int \<Rightarrow> int \<Rightarrow> string" where
  "slot_name shelf_id shelf_index position_index =
     shelf_id @ ''-S'' @ str_int (shelf_index + 1) @ ''-P'' @ str_int (position_index + 1)"

definition mark_item_restocked ::
    "string \<Rightarrow> string \<Rightarrow> int \<Rightarrow> int \<Rightarrow> int \<Rightarrow> store \<Rightarrow> answer" where
  "mark_item_restocked item_id shelf_id shelf_index position_index quantity s =
     (if \<not> has_key (inventory s) item_id then
        (Inr (error_obj (''Item ID '' @ item_id @ '' not found.'')), s)
      else
        (case map_of (shelf_layouts s) shelf_id of
           None \<Rightarrow> (Inr (error_obj (''Shelf ID '' @ shelf_id @ '' not found.'')), s)
         | Some layout \<Rightarrow>
             if \<not> (0 \<le> shelf_index \<and> shelf_index < int (length layout)) then
               (Inr (error_obj (''Invalid shelf index '' @ str_int shelf_index
                                @ '' for Shelf '' @ shelf_id @ ''.'')), s)
             else if \<not> (0 \<le> position_index
                        \<and> position_index < int (length (layout ! nat shelf_index))) then
               (Inr (error_obj (''Invalid position index '' @ str_int position_index
                                @ '' for Shelf '' @ shelf_id @ '', Shelf ''
                                @ str_int (shelf_index + 1) @ ''.'')), s)
             else if quantity \<le> 0 then
               (Inr (error_obj ''Quantity must be positive.''), s)
             else
               (let s1 = write_slot shelf_id (nat shelf_index) (nat position_index) item_id s
                in (case update_inventory_count item_id quantity
                           (''Restocked on '' @ slot_name shelf_id shelf_index position_index) s1 of
                      (Inl e, s2) \<Rightarrow> (Inl e, s2)
                    | (Inr update_data, s2) \<Rightarrow>
                        if is_error update_data then
                          (Inr (JObj [(''error'',
                                         JStr (''Failed to update inventory: ''
                                               @ error_text update_data)),
                                      (''layout_updated'', JBool True)]), s2)
                        else
                          (case subscript (inventory s2) item_id of
                             Inl e \<Rightarrow> (Inl e, s2)
                           | Inr item \<Rightarrow>
                               (Inr (JObj [(''message'',
                                              JStr (''Successfully restocked '' @ str_int quantity
                                                    @ '' of '' @ item_name item @ '' ('' @ item_id
                                                    @ '') at ''
                                                    @ slot_name shelf_id shelf_index position_index
                                                    @ ''.'')),
                                           (''inventory_update'', update_data)]), s2))))))"

text \<open>\<^verbatim>\<open>f"Damaged ({notes if notes else 'No details'})"\<close>\<close>

definition damage_reason :: "string option \<Rightarrow> string" where
  "damage_reason notes =
     ''Damaged (''
     @ (case notes of Some n \<Rightarrow> if n \<noteq> [] then n else ''No details''
        | None \<Rightarrow> ''No details'') @ '')''"

definition log_damaged_item :: "string \<Rightarrow> int \<Rightarrow> string option \<Rightarrow> store \<Rightarrow> answer" where
  "log_damaged_item item_id quantity notes s =
     (if quantity \<le> 0 then (Inr (error_obj ''Quantity must be positive.''), s)
      else
        (case update_inventory_count item_id (- quantity) (damage_reason notes) s of
           (Inl e, s1) \<Rightarrow> (Inl e, s1)
         | (Inr update_data, s1) \<Rightarrow>
             if is_error update_data then
               (Inr (error_obj (''Failed to log damage: '' @ error_text update_data)), s1)
             else
               (case subscript (inventory s1) item_id of
                  Inl e \<Rightarrow> (Inl e, s1)
                | Inr item \<Rightarrow>
                    (Inr (JObj [(''message'',
                                   JStr (''Successfully logged '' @ str_int quantity
                                         @ '' damaged units of '' @ item_name item
                                         @ '' ('' @ item_id @ '').'')),
                                (''inventory_update'', update_data)]), s1))))"

subsection \<open>The simulated image scan\<close>

text \<open>
  The search loop of \<^verbatim>\<open>identify_and_restock_item_from_image\<close> over the rows of the shelf,
  with the pair \<^verbatim>\<open>(shelf_idx, pos_idx)\<close> it carries (initially \<open>(-1, -1)\<close>): a row holding
  the item ends the loop (\<^verbatim>\<open>break\<close>); before that, the first row with an empty slot is
  remembered.
\<close>

fun find_slot :: "string \<Rightarrow> layout \<Rightarrow> nat \<Rightarrow> int \<times> int \<Rightarrow> int \<times> int" where
  "find_slot item_id [] r_idx found = found"
| "find_slot item_id (shelf # rest) r_idx (shelf_idx, pos_idx) =
     (case index_of (Some item_id) shelf of
        Some p_idx \<Rightarrow> (int r_idx, int p_idx)
      | None \<Rightarrow>
          if shelf_idx = - 1 then
            (case index_of None shelf of
               Some p_idx \<Rightarrow> find_slot item_id rest (Suc r_idx) (int r_idx, int p_idx)
             | None \<Rightarrow> find_slot item_id rest (Suc r_idx) (shelf_idx, pos_idx))
          else find_slot item_id rest (Suc r_idx) (shelf_idx, pos_idx))"

definition identify_and_restock_item_from_image :: "string \<Rightarrow> int \<Rightarrow> store \<Rightarrow> answer" where
  "identify_and_restock_item_from_image image_data quantity s =
     (let item_id = image_data in
      if item_id = [] then
        (Inr (error_obj ''Could not identify item from image data (simulation).''), s)
      else
        (case find_item_location item_id s of
           (Inl e, s0) \<Rightarrow> (Inl e, s0)
         | (Inr location_data, s0) \<Rightarrow>
             if is_error location_data then
               (Inr (error_obj (''Could not find location for identified item '' @ item_id
                                @ '': '' @ error_text location_data)), s0)
             else
               (let shelf_id =
                      (case obj_get location_data ''location_id'' of
                         Some (JStr l) \<Rightarrow> l | _ \<Rightarrow> ''None'');
                    (shelf_idx, pos_idx) =
                      (case map_of (shelf_layouts s0) shelf_id of
                         Some layout \<Rightarrow> find_slot item_id layout 0 (- 1, - 1)
                       | None \<Rightarrow> (- 1, - 1))
                in if shelf_idx = - 1 \<or> pos_idx = - 1 then
                     (Inr (error_obj (''Could not determine specific shelf/position for item ''
                                      @ item_id @ '' on shelf '' @ shelf_id
                                      @ ''. Layout might need update.'')), s0)
                   else
                     (case mark_item_restocked item_id shelf_id shelf_idx pos_idx quantity s0 of
                        (Inl e, s1) \<Rightarrow> (Inl e, s1)
                      | (Inr restock_data, s1) \<Rightarrow>
                          if is_error restock_data then
                            (Inr (error_obj (''Failed to restock after identification: ''
                                             @ error_text restock_data)), s1)
                          else
                            (Inr (JObj [(''message'',
                                           JStr (''Simulated vision identification and restocking ''
                                                 @ ''complete for '' @ item_id @ ''.'')),
                                        (''restock_details'', restock_data)]), s1)))))"

subsection \<open>The tool surface\<close>

text \<open>
  \<^verbatim>\<open>main.py\<close> registers the eleven functions as the agent's tools; a tool call names one
  of them with its arguments. \<open>call_tool\<close> runs one call on the store, given the random
  numbers the call would draw.
\<close>

datatype tool_call =
    CheckItemStock string
  | FindItemLocation string
  | GetShelfLayout string
  | RequestItemFromStorage string int string
  | CheckDeliveryStatus string
  | GetItemsNeedingRestock "string option" int
  | UpdateInventoryCount string int string
  | MarkItemRestocked string string int int int
  | LogDamagedItem string int "string option"
  | GetStoreLayoutOverview
  | IdentifyAndRestockItemFromImage string int

fun call_tool :: "tool_call \<Rightarrow> int \<Rightarrow> real \<Rightarrow> real \<Rightarrow> store \<Rightarrow> answer" where
  "call_tool (CheckItemStock i) draw u1 u2 s = check_item_stock i s"
| "call_tool (FindItemLocation i) draw u1 u2 s = find_item_location i s"
| "call_tool (GetShelfLayout sh) draw u1 u2 s = get_shelf_layout sh s"
| "call_tool (RequestItemFromStorage i q t) draw u1 u2 s = request_item_from_storage i q t draw s"
| "call_tool (CheckDeliveryStatus r) draw u1 u2 s = check_delivery_status r u1 u2 s"
| "call_tool (GetItemsNeedingRestock c m) draw u1 u2 s = get_items_needing_restock c m s"
| "call_tool (UpdateInventoryCount i d r) draw u1 u2 s = update_inventory_count i d r s"
| "call_tool (MarkItemRestocked i sh r p q) draw u1 u2 s = mark_item_restocked i sh r p q s"
| "call_tool (LogDamagedItem i q n) draw u1 u2 s = log_damaged_item i q n s"
| "call_tool GetStoreLayoutOverview draw u1 u2 s = get_store_layout_overview s"
| "call_tool (IdentifyAndRestockItemFromImage d q) draw u1 u2 s =
     identify_and_restock_item_from_image d q s"

subsection \<open>Notions the properties are stated with\<close>

text \<open>The arguments \<^verbatim>\<open>mark_item_restocked\<close> accepts: a known item, a known shelf, both
  indices within the grid, a positive quantity.\<close>

definition valid_restock_args ::
    "string \<Rightarrow> string \<Rightarrow> int \<Rightarrow> int \<Rightarrow> int \<Rightarrow> store \<Rightarrow> bool" where
  "valid_restock_args item_id shelf_id shelf_index position_index quantity s =
     (has_key (inventory s) item_id
      \<and> (case map_of (shelf_layouts s) shelf_id of
            None \<Rightarrow> False
          | Some layout \<Rightarrow>
              0 \<le> shelf_index \<and> shelf_index < int (length layout)
              \<and> 0 \<le> position_index
              \<and> position_index < int (length (layout ! nat shelf_index)))
      \<and> 0 < quantity)"

text \<open>
  The slots of a shelf in scanning order (rows in order, positions in order within a row),
  each with its coordinates, and the first of them holding a given content. This is the
  reference the search loop \<open>find_slot\<close> is compared with.
\<close>

definition row_slots :: "nat \<Rightarrow> string option list \<Rightarrow> ((nat \<times> nat) \<times> string option) list" where
  "row_slots r shelf = map (\<lambda>pc. ((r, fst pc), snd pc)) (enumerate 0 shelf)"

definition scan_slots :: "nat \<Rightarrow> layout \<Rightarrow> ((nat \<times> nat) \<times> string option) list" where
  "scan_slots k rows = concat (map (\<lambda>rs. row_slots (fst rs) (snd rs)) (enumerate k rows))"

definition first_slot_holding :: "string option \<Rightarrow> nat \<Rightarrow> layout \<Rightarrow> (nat \<times> nat) option" where
  "first_slot_holding x k rows =
     (case filter (\<lambda>e. snd e = x) (scan_slots k rows) of
        [] \<Rightarrow> None
      | e # _ \<Rightarrow> Some (fst e))"

definition resolved_slot :: "string \<Rightarrow> layout \<Rightarrow> (nat \<times> nat) option" where
  "resolved_slot item_id rows =
     (case first_slot_holding (Some item_id) 0 rows of
        Some rp \<Rightarrow> Some rp
      | None \<Rightarrow> first_slot_holding None 0 rows)"

text \<open>The place of a status in the order Pending, In Transit, Delivered.\<close>

definition status_rank :: "string \<Rightarrow> nat" where
  "status_rank st =
     (if st = ''Pending'' then 0 else if st = ''In Transit'' then 1
      else if st = ''Delivered'' then 2 else 3)"

section \<open>The transcript reducer of \<^verbatim>\<open>chat_ui.py\<close>\<close>

text \<open>
  A transcript entry is a \<^verbatim>\<open>ChatMessage\<close>: role, content and optional metadata (a dict;
  \<open>None\<close> and the empty dict are both false in a Python test). The content is text in
  every entry the code builds itself, but a tool bubble takes whatever value the tool's
  output holds under \<^verbatim>\<open>message\<close> or \<^verbatim>\<open>layout_visual\<close>, so it is a \<open>json\<close> value here. The
  fields carry a prefix because \<^verbatim>\<open>content\<close> is also a parameter name.
\<close>

record ChatMessage =
  msg_role :: string
  msg_content :: json
  msg_metadata :: "(string \<times> string) list option"

definition has_metadata :: "ChatMessage \<Rightarrow> bool" where
  "has_metadata msg = (case msg_metadata msg of None \<Rightarrow> False | Some md \<Rightarrow> md \<noteq> [])"

definition convert_dict_to_chatmessage :: "ChatMessage \<Rightarrow> ChatMessage" where
  "convert_dict_to_chatmessage msg =
     \<lparr>msg_role = msg_role msg, msg_content = msg_content msg, msg_metadata = msg_metadata msg\<rparr>"

definition convert_chatmessage_to_dict :: "ChatMessage \<Rightarrow> ChatMessage" where
  "convert_chatmessage_to_dict msg =
     \<lparr>msg_role = msg_role msg, msg_content = msg_content msg,
      msg_metadata = (if has_metadata msg then msg_metadata msg else Some [])\<rparr>"

text \<open>
  What the reducer takes from its surroundings. The two display tables \<^verbatim>\<open>tool_titles\<close> and
  \<^verbatim>\<open>tool_icons_status\<close> and the default icon are literals of pictographs, which the
  8-bit characters of \<open>string\<close> do not hold; \<^verbatim>\<open>json.loads\<close> is the library's (\<open>None\<close>: it
  raises \<^verbatim>\<open>JSONDecodeError\<close>), and so is the text \<^verbatim>\<open>str()\<close> gives for a value that is not
  a string (\<open>py_repr\<close>). All five are parameters, and every result below holds for every
  value of them.
\<close>

record chat_env =
  tool_titles :: "(string \<times> string) list"
  tool_icons_status :: "(string \<times> string) list"
  default_icon :: string
  json_loads :: "string \<Rightarrow> json option"
  py_repr :: "json \<Rightarrow> string"

subsection \<open>Python operators on decoded values\<close>

text \<open>
  \<^verbatim>\<open>key in output\<close>: key membership for a dict, element membership for a list, substring
  test for a string, \<^verbatim>\<open>TypeError\<close> for a number, a boolean and \<^verbatim>\<open>None\<close>.
\<close>

fun is_substring :: "string \<Rightarrow> string \<Rightarrow> bool" where
  "is_substring k [] = (k = [])"
| "is_substring k (c # cs) = (take (length k) (c # cs) = k \<or> is_substring k cs)"

fun py_in :: "string \<Rightarrow> json \<Rightarrow> py_error + bool" where
  "py_in k (JObj kvs) = Inr (has_key kvs k)"
| "py_in k (JList xs) = Inr (JStr k \<in> set xs)"
| "py_in k (JStr s) = Inr (is_substring k s)"
| "py_in k _ = Inl TypeError"

text \<open>\<^verbatim>\<open>output[key]\<close> with a string key: the member of a dict; \<^verbatim>\<open>TypeError\<close> for a list,
  a string and everything else.\<close>

fun py_getitem :: "json \<Rightarrow> string \<Rightarrow> py_error + json" where
  "py_getitem (JObj kvs) k = (case map_of kvs k of Some v \<Rightarrow> Inr v | None \<Rightarrow> Inl (KeyError k))"
| "py_getitem _ k = Inl TypeError"

text \<open>\<^verbatim>\<open>content[:50]\<close> is defined for a string and a list, and raises for every other
  value (a \<^verbatim>\<open>TypeError\<close>; for a dict, where a slice can be hashed, a \<^verbatim>\<open>KeyError\<close>: the loop
  catches both alike, and the kind of the exception plays no part below).\<close>

fun sliceable :: "json \<Rightarrow> bool" where
  "sliceable (JStr s) = True"
| "sliceable (JList xs) = True"
| "sliceable _ = False"

text \<open>\<^verbatim>\<open>x += text\<close>: concatenation for a string; a list is extended by the characters of
  the text; \<^verbatim>\<open>TypeError\<close> otherwise.\<close>

fun py_iadd :: "json \<Rightarrow> string \<Rightarrow> py_error + json" where
  "py_iadd (JStr a) text = Inr (JStr (a @ text))"
| "py_iadd (JList xs) text = Inr (JList (xs @ map (\<lambda>c. JStr [c]) text))"
| "py_iadd _ text = Inl TypeError"

text \<open>The text an f-string puts in for a value.\<close>

definition format_value :: "chat_env \<Rightarrow> json \<Rightarrow> string" where
  "format_value env v = (case v of JStr s \<Rightarrow> s | _ \<Rightarrow> py_repr env v)"

subsection \<open>Tool bubbles\<close>

definition bubble_id :: "string option \<Rightarrow> string" where
  "bubble_id call_id =
     (case call_id of
        Some c \<Rightarrow> if c \<noteq> [] then ''tool-'' @ c else ''tool-noid''
      | None \<Rightarrow> ''tool-noid'')"

definition is_bubble :: "string \<Rightarrow> ChatMessage \<Rightarrow> bool" where
  "is_bubble bid msg =
     (case msg_metadata msg of
        None \<Rightarrow> False
      | Some md \<Rightarrow> md \<noteq> [] \<and> map_of md ''id'' = Some bid)"

text \<open>The position a scan of \<^verbatim>\<open>reversed(conversation)\<close> stops at: the last entry with \<open>P\<close>.\<close>

fun find_last :: "('a \<Rightarrow> bool) \<Rightarrow> 'a list \<Rightarrow> nat option" where
  "find_last P [] = None"
| "find_last P (x # xs) =
     (case find_last P xs of
        Some i \<Rightarrow> Some (Suc i)
      | None \<Rightarrow> if P x then Some 0 else None)"

definition update_bubble :: "string \<Rightarrow> string \<Rightarrow> json \<Rightarrow> ChatMessage \<Rightarrow> ChatMessage" where
  "update_bubble title status content msg =
     (case msg_metadata msg of
        Some md \<Rightarrow>
          msg\<lparr>msg_metadata := Some (AList.update ''status'' status (AList.update ''title'' title md)),
              msg_content := content\<rparr>
      | None \<Rightarrow> msg)"

definition bubble_title :: "chat_env \<Rightarrow> string \<Rightarrow> string \<Rightarrow> string" where
  "bubble_title env tn status =
     (let title_prefix =
            (case map_of (tool_titles env) tn of Some t \<Rightarrow> t | None \<Rightarrow> default_icon env @ tn);
          status_icon =
            (case map_of (tool_icons_status env) status of Some i \<Rightarrow> i | None \<Rightarrow> [])
      in status_icon @ '' '' @ title_prefix)"

text \<open>
  \<^verbatim>\<open>create_tool_bubble\<close>. Both branches print \<^verbatim>\<open>content[:50]\<close> before they change anything,
  so a content that cannot be sliced raises and leaves the conversation as it was.
\<close>

definition create_tool_bubble ::
    "chat_env \<Rightarrow> string option \<Rightarrow> json \<Rightarrow> string option \<Rightarrow> string
       \<Rightarrow> ChatMessage list \<Rightarrow> py_error + ChatMessage list" where
  "create_tool_bubble env tool_name content call_id status conversation =
     (case tool_name of
        None \<Rightarrow> Inr conversation
      | Some tn \<Rightarrow>
          (let title = bubble_title env tn status;
               bid = bubble_id call_id
           in (case find_last (is_bubble bid) conversation of
                 Some i \<Rightarrow>
                   if sliceable content then
                     Inr (conversation[i := update_bubble title status content (conversation ! i)])
                   else Inl TypeError
               | None \<Rightarrow>
                   if sliceable content then
                     Inr (conversation
                          @ [\<lparr>msg_role = ''assistant'', msg_content = content,
                              msg_metadata =
                                Some [(''title'', title), (''id'', bid), (''status'', status)]\<rparr>])
                   else Inl TypeError)))"

subsection \<open>Events\<close>

text \<open>
  The fields of a streamed tool call that the loop reads. A field read with \<^verbatim>\<open>.get\<close> and
  tested for truth is an \<open>option\<close> (\<open>None\<close>: absent or null). Where the code goes on to use
  a null value, the three cases are kept apart: \<^verbatim>\<open>arguments\<close> (a present null is added to
  a string), \<^verbatim>\<open>function\<close> (\<^verbatim>\<open>hasattr\<close> holds and \<^verbatim>\<open>.output\<close> is read from \<^verbatim>\<open>None\<close>) and the
  search request (\<open>Null\<close>: \<^verbatim>\<open>bing_grounding\<close> is null and \<^verbatim>\<open>.get\<close> raises \<^verbatim>\<open>AttributeError\<close>, or
  its \<^verbatim>\<open>requesturl\<close> is null and the test \<^verbatim>\<open>"?q=" in\<close> raises \<^verbatim>\<open>TypeError\<close>; the model has the
  first kind for both). The fields that are present hold text. An event is the pair
  \<^verbatim>\<open>(event_type, event_data)\<close>, one constructor for each \<^verbatim>\<open>event_type\<close> the loop tests, one
  for a message event (which only the handler acts on) and one for every other type.
  \<open>Unreadable ev e\<close> is an item with the data of \<open>ev\<close> on which the body of the loop raises
  \<open>e\<close> while it reads the item, before it has changed anything: an item too short to
  unpack, or a null where the body reads a dict or a list (\<^verbatim>\<open>delta\<close>, \<^verbatim>\<open>step_details\<close>,
  \<^verbatim>\<open>tool_calls\<close>, \<^verbatim>\<open>content\<close>, the \<^verbatim>\<open>text\<close> of a chunk), or a missing \<^verbatim>\<open>status\<close>.
\<close>

datatype 'a field = Missing | Null | Present 'a

record function_data =
  fn_name :: "string option"
  fn_arguments :: "string field"
  fn_output :: "string option"

record tool_call_data =
  tc_id :: "string option"
  tc_type :: "string option"
  tc_function :: "function_data field"
  tc_requesturl :: "string field"

datatype event =
    RunStepDelta "string option" "tool_call_data list"
  | RunStep "string option" string "tool_call_data list" "string option"
  | MessageDelta string "string option list"
  | ThreadMessage string string "string option list"
  | ThreadRun string
  | OtherEvent string
  | Unreadable event py_error

record tool_info =
  ti_name :: string
  ti_arguments :: string
  ti_status :: string

record reducer_state =
  conversation :: "ChatMessage list"
  active_tool_calls :: "(string \<times> tool_info) list"

text \<open>
  What the body of the loop does with one item: it runs to its end, or it raises inside
  the \<^verbatim>\<open>try\<close>, the item's \<^verbatim>\<open>yield\<close> is skipped and the loop goes on. In both cases the
  state is what the body had made of it by then.
\<close>

datatype outcome = Done | Raised py_error

text \<open>A \<^verbatim>\<open>for\<close> loop over calls that ends at the first one that raises.\<close>

fun run_calls ::
    "('a \<Rightarrow> 's \<Rightarrow> outcome \<times> 's) \<Rightarrow> 'a list \<Rightarrow> 's \<Rightarrow> outcome \<times> 's" where
  "run_calls f [] st = (Done, st)"
| "run_calls f (x # xs) st =
     (case f x st of
        (Done, st1) \<Rightarrow> run_calls f xs st1
      | (Raised e, st1) \<Rightarrow> (Raised e, st1))"

text \<open>\<^verbatim>\<open>s.split(sep)[-1]\<close> for an \<open>s\<close> that contains \<open>sep\<close>: the text after its last
  occurrence; \<open>None\<close> when \<open>sep\<close> does not occur.\<close>

fun after_last :: "string \<Rightarrow> string \<Rightarrow> string option" where
  "after_last sep [] = None"
| "after_last sep (c # cs) =
     (case after_last sep cs of
        Some r \<Rightarrow> Some r
      | None \<Rightarrow>
          if take (length sep) (c # cs) = sep then Some (drop (length sep) (c # cs)) else None)"

text \<open>The first sighting of a function call: it is entered in the table and its pending
  bubble is created.\<close>

definition start_tool_call ::
    "chat_env \<Rightarrow> string \<Rightarrow> string \<Rightarrow> reducer_state \<Rightarrow> outcome \<times> reducer_state" where
  "start_tool_call env func_name cid st =
     (if \<not> has_key (active_tool_calls st) cid then
        (let st0 = st\<lparr>active_tool_calls :=
                        AList.update cid
                          \<lparr>ti_name = func_name, ti_arguments = [], ti_status = ''pending''\<rparr>
                          (active_tool_calls st)\<rparr>
         in (case create_tool_bubble env (Some func_name) (JStr ''Running...'') (Some cid)
                    ''pending'' (conversation st0) of
               Inl e \<Rightarrow> (Raised e, st0)
             | Inr conv \<Rightarrow> (Done, st0\<lparr>conversation := conv\<rparr>)))
      else (Done, st))"

text \<open>\<^verbatim>\<open>active_tool_calls[call_id]["arguments"] += tcall["function"]["arguments"]\<close>, entered
  when the key \<^verbatim>\<open>arguments\<close> is present.\<close>

definition add_arguments ::
    "string field \<Rightarrow> string \<Rightarrow> reducer_state \<Rightarrow> outcome \<times> reducer_state" where
  "add_arguments arguments cid st =
     (case arguments of
        Missing \<Rightarrow> (Done, st)
      | Null \<Rightarrow>
          (case map_of (active_tool_calls st) cid of
             None \<Rightarrow> (Raised (KeyError cid), st)
           | Some info \<Rightarrow> (Raised TypeError, st))
      | Present a \<Rightarrow>
          (case map_of (active_tool_calls st) cid of
             None \<Rightarrow> (Raised (KeyError cid), st)
           | Some info \<Rightarrow>
               (Done, st\<lparr>active_tool_calls :=
                           AList.update cid (info\<lparr>ti_arguments := ti_arguments info @ a\<rparr>)
                             (active_tool_calls st)\<rparr>)))"

definition delta_tool_call ::
    "chat_env \<Rightarrow> tool_call_data \<Rightarrow> reducer_state \<Rightarrow> outcome \<times> reducer_state" where
  "delta_tool_call env tcall st =
     (let call_id = tc_id tcall in
      case (if tc_type tcall = Some ''function'' then tc_function tcall else Missing) of
        Present f \<Rightarrow>
          (case (fn_name f, call_id) of
             (Some func_name, Some cid) \<Rightarrow>
               if func_name \<noteq> [] \<and> cid \<noteq> [] then
                 (case start_tool_call env func_name cid st of
                    (Raised e, st1) \<Rightarrow> (Raised e, st1)
                  | (Done, st1) \<Rightarrow> add_arguments (fn_arguments f) cid st1)
               else (Done, st)
           | _ \<Rightarrow> (Done, st))
      | _ \<Rightarrow>
          if tc_type tcall = Some ''bing_grounding'' then
            (case tc_requesturl tcall of
               Null \<Rightarrow> (Raised AttributeError, st)
             | Missing \<Rightarrow> (Done, st)
             | Present search_query \<Rightarrow>
                 (case after_last ''?q='' search_query of
                    Some query \<Rightarrow>
                      (case create_tool_bubble env (Some ''bing_grounding'')
                              (JStr (''Searching for '' @ [CHR 0x27] @ query @ [CHR 0x27] @ ''...''))
                              call_id ''pending'' (conversation st) of
                         Inl e \<Rightarrow> (Raised e, st)
                       | Inr conv \<Rightarrow> (Done, st\<lparr>conversation := conv\<rparr>))
                  | None \<Rightarrow> (Done, st)))
          else (Done, st))"

definition truncated :: "string \<Rightarrow> string" where
  "truncated output_str =
     take 100 output_str @ (if 100 < length output_str then ''...'' else [])"

text \<open>
  The choice of the message for a completed call, \<^verbatim>\<open>output = json.loads(output_str)\<close> and
  the \<^verbatim>\<open>if\<close>/\<^verbatim>\<open>elif\<close> chain after it. Only \<^verbatim>\<open>JSONDecodeError\<close> is caught here; any other
  exception leaves the \<^verbatim>\<open>try\<close>.
\<close>

definition message_or_error :: "chat_env \<Rightarrow> string \<Rightarrow> json \<Rightarrow> py_error + json" where
  "message_or_error env output_str output =
     (case py_in ''message'' output of
        Inl e \<Rightarrow> Inl e
      | Inr True \<Rightarrow> py_getitem output ''message''
      | Inr False \<Rightarrow>
          (case py_in ''error'' output of
             Inl e \<Rightarrow> Inl e
           | Inr True \<Rightarrow>
               (case py_getitem output ''error'' of
                  Inl e \<Rightarrow> Inl e
                | Inr v \<Rightarrow> Inr (JStr (''Error: '' @ format_value env v)))
           | Inr False \<Rightarrow> Inr (JStr (''Completed. Output: '' @ truncated output_str))))"

definition completion_message :: "chat_env \<Rightarrow> string \<Rightarrow> string \<Rightarrow> py_error + json" where
  "completion_message env func_name output_str =
     (case json_loads env output_str of
        None \<Rightarrow> Inr (JStr (''Completed. Output (non-JSON): '' @ truncated output_str))
      | Some output \<Rightarrow>
          if func_name = ''get_shelf_layout'' then
            (case py_in ''layout_visual'' output of
               Inl e \<Rightarrow> Inl e
             | Inr True \<Rightarrow> py_getitem output ''layout_visual''
             | Inr False \<Rightarrow> message_or_error env output_str output)
          else message_or_error env output_str output)"

definition tracked_name :: "(string \<times> tool_info) list \<Rightarrow> string option \<Rightarrow> string" where
  "tracked_name active call_id =
     (case call_id of
        None \<Rightarrow> ''unknown_function''
      | Some cid \<Rightarrow>
          (case map_of active cid of
             Some info \<Rightarrow> if ti_name info \<noteq> [] then ti_name info else ''unknown_function''
           | None \<Rightarrow> ''unknown_function''))"

definition forget_call :: "string option \<Rightarrow> (string \<times> tool_info) list \<Rightarrow> (string \<times> tool_info) list" where
  "forget_call call_id active =
     (case call_id of None \<Rightarrow> active | Some cid \<Rightarrow> AList.delete cid active)"

text \<open>
  The test \<^verbatim>\<open>tcall.get("type") == "function" and hasattr(tcall, 'function') and
  tcall.function.output\<close> of a completed call: the output the loop goes on with, none
  (\<open>Inr None\<close>), or the \<^verbatim>\<open>AttributeError\<close> of reading \<^verbatim>\<open>.output\<close> from a null function.
\<close>

definition completed_output :: "tool_call_data \<Rightarrow> py_error + string option" where
  "completed_output tcall =
     (if tc_type tcall = Some ''function'' then
        (case tc_function tcall of
           Missing \<Rightarrow> Inr None
         | Null \<Rightarrow> Inl AttributeError
         | Present f \<Rightarrow>
             (case fn_output f of
                Some out \<Rightarrow> if out \<noteq> [] then Inr (Some out) else Inr None
              | None \<Rightarrow> Inr None))
      else Inr None)"

definition step_tool_call ::
    "chat_env \<Rightarrow> string \<Rightarrow> string option \<Rightarrow> tool_call_data \<Rightarrow> reducer_state
       \<Rightarrow> outcome \<times> reducer_state" where
  "step_tool_call env status last_error tcall st =
     (let call_id = tc_id tcall;
          func_name = tracked_name (active_tool_calls st) call_id
      in if status = ''completed'' then
           (case completed_output tcall of
              Inl e \<Rightarrow> (Raised e, st)
            | Inr None \<Rightarrow> (Done, st)
            | Inr (Some output_str) \<Rightarrow>
                (case completion_message env func_name output_str of
                   Inl e \<Rightarrow> (Raised e, st)
                 | Inr message \<Rightarrow>
                     (case create_tool_bubble env (Some func_name) message call_id ''done''
                             (conversation st) of
                        Inl e \<Rightarrow> (Raised e, st)
                      | Inr conv \<Rightarrow>
                          (Done, st\<lparr>conversation := conv,
                                    active_tool_calls :=
                                      forget_call call_id (active_tool_calls st)\<rparr>))))
         else if status = ''failed'' then
           (let error_message =
                  ''Tool call failed: '' @ func_name
                  @ (case last_error of Some m \<Rightarrow> '' - '' @ m | None \<Rightarrow> [])
            in (case create_tool_bubble env (Some func_name) (JStr error_message) call_id
                       ''error'' (conversation st) of
                  Inl e \<Rightarrow> (Raised e, st)
                | Inr conv \<Rightarrow>
                    (Done, st\<lparr>conversation := conv,
                              active_tool_calls :=
                                forget_call call_id (active_tool_calls st)\<rparr>)))
         else (Done, st))"

definition delta_text :: "string option list \<Rightarrow> string" where
  "delta_text chunks = concat (map (\<lambda>c. case c of Some v \<Rightarrow> v | None \<Rightarrow> []) chunks)"

definition append_delta :: "string \<Rightarrow> ChatMessage list \<Rightarrow> py_error + ChatMessage list" where
  "append_delta content conv =
     (if conv = [] \<or> msg_role (last conv) \<noteq> ''assistant'' \<or> has_metadata (last conv) then
        Inr (conv @ [\<lparr>msg_role = ''assistant'', msg_content = JStr content, msg_metadata = None\<rparr>])
      else
        (case py_iadd (msg_content (last conv)) content of
           Inl e \<Rightarrow> Inl e
         | Inr c \<Rightarrow> Inr (butlast conv @ [(last conv)\<lparr>msg_content := c\<rparr>])))"

text \<open>One pass of the body of \<^verbatim>\<open>for item in stream\<close> in \<^verbatim>\<open>azure_store_chat\<close>, up to its
  \<^verbatim>\<open>yield\<close>.\<close>

fun process_event :: "chat_env \<Rightarrow> event \<Rightarrow> reducer_state \<Rightarrow> outcome \<times> reducer_state" where
  "process_event env (RunStepDelta step_type tool_calls) st =
     (if step_type = Some ''tool_calls'' then run_calls (delta_tool_call env) tool_calls st
      else (Done, st))"
| "process_event env (RunStep step_type status tool_calls last_error) st =
     (if step_type = Some ''tool_calls'' \<and> tool_calls \<noteq> [] then
        run_calls (step_tool_call env status last_error) tool_calls st
      else (Done, st))"
| "process_event env (MessageDelta mid chunks) st =
     (let content = delta_text chunks
      in if content \<noteq> [] then
           (case append_delta content (conversation st) of
              Inl e \<Rightarrow> (Raised e, st)
            | Inr conv \<Rightarrow> (Done, st\<lparr>conversation := conv\<rparr>))
         else (Done, st))"
| "process_event env (ThreadMessage role status parts) st = (Done, st)"
| "process_event env (ThreadRun status) st = (Done, st)"
| "process_event env (OtherEvent event_type) st = (Done, st)"
| "process_event env (Unreadable ev e) st = (Raised e, st)"

subsection \<open>The handler attached to the stream\<close>

text \<open>
  \<^verbatim>\<open>azure_store_chat\<close> creates an \<^verbatim>\<open>EventHandler\<close>, gives it the conversation list
  (\<^verbatim>\<open>event_handler.conversation = conversation\<close>) and passes it to \<^verbatim>\<open>create_stream\<close>. The
  stream it then iterates is the SDK's: for each event it calls the handler's callback for
  the kind of the event and hands the item (type, data and what the callback returned)
  to the loop. The handler keeps \<^verbatim>\<open>_current_message_id\<close> and \<^verbatim>\<open>_accumulated_text\<close>. Two of
  its callbacks write to the list: \<^verbatim>\<open>on_message_delta\<close> and \<^verbatim>\<open>on_thread_message\<close>. The others
  (\<^verbatim>\<open>on_run_step_delta\<close>, \<^verbatim>\<open>on_run_step\<close>, \<^verbatim>\<open>on_thread_run\<close>) reach the transcript only through
  \<^verbatim>\<open>create_tool_bubble_fn\<close>, which is \<^verbatim>\<open>None\<close> and assigned nowhere, so they leave it as it
  is. A callback that raises does so before it writes to the list (\<^verbatim>\<open>on_message_delta\<close> and
  \<^verbatim>\<open>on_thread_message\<close> while they add up the parts, \<^verbatim>\<open>on_run_step\<close> in its own choice of
  the message), and the exception leaves the iteration: that is a stream that fails after
  the items before it (\<open>Failed\<close> below), and the item is not handed to the loop.
\<close>

record handler_state =
  current_message_id :: "string option"
  accumulated_text :: string

definition is_plain_assistant :: "ChatMessage \<Rightarrow> bool" where
  "is_plain_assistant msg = (msg_role msg = ''assistant'' \<and> \<not> has_metadata msg)"

definition on_message_delta ::
    "string \<Rightarrow> string option list \<Rightarrow> handler_state \<times> ChatMessage list
       \<Rightarrow> handler_state \<times> ChatMessage list" where
  "on_message_delta delta_id chunks hc =
     (let h = fst hc; conv = snd hc;
          h1 = (if Some delta_id \<noteq> current_message_id h then
                  h\<lparr>current_message_id := Some delta_id, accumulated_text := []\<rparr>
                else h);
          partial_text = delta_text chunks
      in if partial_text \<noteq> [] then
           (let h2 = h1\<lparr>accumulated_text := accumulated_text h1 @ partial_text\<rparr>
            in if conv \<noteq> [] then
                 (case find_last is_plain_assistant conv of
                    Some i \<Rightarrow>
                      (h2, conv[i := (conv ! i)\<lparr>msg_content := JStr (accumulated_text h2)\<rparr>])
                  | None \<Rightarrow>
                      if conv = [] \<or> msg_role (last conv) \<noteq> ''assistant''
                         \<or> has_metadata (last conv) then
                        (h2, conv @ [\<lparr>msg_role = ''assistant'',
                                      msg_content = JStr (accumulated_text h2),
                                      msg_metadata = None\<rparr>])
                      else (h2, conv))
               else (h2, conv))
         else (h1, conv))"

definition on_thread_message ::
    "string \<Rightarrow> string \<Rightarrow> string option list \<Rightarrow> handler_state \<times> ChatMessage list
       \<Rightarrow> handler_state \<times> ChatMessage list" where
  "on_thread_message role status parts hc =
     (let h = fst hc; conv = snd hc in
      if role = ''assistant'' \<and> status = ''completed'' then
        (let final_content = delta_text parts;
             conv1 =
               (if conv \<noteq> [] then
                  (if is_plain_assistant (last conv) then
                     (if msg_content (last conv) \<noteq> JStr final_content then
                        butlast conv @ [(last conv)\<lparr>msg_content := JStr final_content\<rparr>]
                      else conv)
                   else if final_content \<noteq> [] then
                     (if msg_role (last conv) \<noteq> ''assistant''
                         \<or> msg_content (last conv) \<noteq> JStr final_content then
                        conv @ [\<lparr>msg_role = ''assistant'', msg_content = JStr final_content,
                                 msg_metadata = None\<rparr>]
                      else conv)
                   else conv)
                else conv)
         in (h\<lparr>current_message_id := None, accumulated_text := []\<rparr>, conv1))
      else (h, conv))"

text \<open>The callback the stream calls for an event.\<close>

fun handler_callback ::
    "event \<Rightarrow> handler_state \<times> ChatMessage list \<Rightarrow> handler_state \<times> ChatMessage list" where
  "handler_callback (MessageDelta mid chunks) hc = on_message_delta mid chunks hc"
| "handler_callback (ThreadMessage role status parts) hc = on_thread_message role status parts hc"
| "handler_callback (RunStepDelta step_type tool_calls) hc = hc"
| "handler_callback (RunStep step_type status tool_calls last_error) hc = hc"
| "handler_callback (ThreadRun status) hc = hc"
| "handler_callback (OtherEvent event_type) hc = hc"
| "handler_callback (Unreadable ev e) hc = handler_callback ev hc"

subsection \<open>One turn of \<^verbatim>\<open>azure_store_chat\<close>\<close>

text \<open>
  One item of the stream: the handler's callback on the shared list, then the body of the
  loop. The stream the hosted session delivers is a list of events and the way the
  iteration ends: normally, or with an exception (given by its text) raised to the
  \<^verbatim>\<open>except Exception as stream_ex\<close> handler around the loop. A plain entry built by
  \<^verbatim>\<open>ChatMessage(role=..., content=...)\<close> has no metadata.
\<close>

definition turn_item ::
    "chat_env \<Rightarrow> event \<Rightarrow> handler_state \<times> reducer_state
       \<Rightarrow> outcome \<times> handler_state \<times> reducer_state" where
  "turn_item env ev hs =
     (let hc = handler_callback ev (fst hs, conversation (snd hs));
          r = process_event env ev ((snd hs)\<lparr>conversation := snd hc\<rparr>)
      in (fst r, fst hc, snd r))"

datatype stream_end = Finished | Failed string

datatype send_outcome = Sent | SendFailed string

definition to_dicts :: "ChatMessage list \<Rightarrow> ChatMessage list" where
  "to_dicts conv = map convert_chatmessage_to_dict conv"

text \<open>The loop: the transcripts yielded, one after each item whose body ran to its end,
  and the state when the items are used up.\<close>

fun consume ::
    "chat_env \<Rightarrow> event list \<Rightarrow> handler_state \<times> reducer_state
       \<Rightarrow> ChatMessage list list \<times> handler_state \<times> reducer_state" where
  "consume env [] hs = ([], hs)"
| "consume env (ev # rest) hs =
     (case turn_item env ev hs of
        (Done, hs1) \<Rightarrow>
          (let r = consume env rest hs1
           in (to_dicts (conversation (snd hs1)) # fst r, snd r))
      | (Raised e, hs1) \<Rightarrow> consume env rest hs1)"

definition stream_error_entry :: "string \<Rightarrow> ChatMessage" where
  "stream_error_entry ex =
     \<lparr>msg_role = ''assistant'',
      msg_content = JStr (''An error occurred while processing your request: '' @ ex),
      msg_metadata = None\<rparr>"

text \<open>The handler as \<^verbatim>\<open>__init__\<close> leaves it.\<close>

definition fresh_handler :: handler_state where
  "fresh_handler = \<lparr>current_message_id = None, accumulated_text = []\<rparr>"

text \<open>From the opening of the stream to the final \<^verbatim>\<open>yield\<close>: the yields and the final
  conversation.\<close>

definition stream_turn ::
    "chat_env \<Rightarrow> event list \<Rightarrow> stream_end \<Rightarrow> ChatMessage list
       \<Rightarrow> ChatMessage list list \<times> ChatMessage list" where
  "stream_turn env items ending conversation0 =
     (let r = consume env items
                (fresh_handler, \<lparr>conversation = conversation0, active_tool_calls = []\<rparr>);
          reached = conversation (snd (snd r));
          final =
            (case ending of
               Finished \<Rightarrow> reached
             | Failed ex \<Rightarrow> reached @ [stream_error_entry ex])
      in (fst r @ [to_dicts final], final))"

text \<open>
  The whole generator: the list of transcripts it yields and the new value of
  \<^verbatim>\<open>last_message_sent_time\<close>. \<open>current_time\<close> is the reading of \<^verbatim>\<open>time.time()\<close>, \<open>send\<close> says
  whether \<^verbatim>\<open>create_message\<close> raised.
\<close>

definition azure_store_chat ::
    "chat_env \<Rightarrow> real \<Rightarrow> real \<Rightarrow> send_outcome \<Rightarrow> event list \<Rightarrow> stream_end
       \<Rightarrow> string \<Rightarrow> ChatMessage list \<Rightarrow> ChatMessage list list \<times> real" where
  "azure_store_chat env current_time last_message_sent_time send items ending
       user_message history =
     (if current_time - last_message_sent_time < 2 then ([history], last_message_sent_time)
      else if strip user_message = [] then ([history], last_message_sent_time)
      else
        (let conversation0 =
               map convert_dict_to_chatmessage history
               @ [\<lparr>msg_role = ''user'', msg_content = JStr user_message, msg_metadata = None\<rparr>]
         in (case send of
               SendFailed ex \<Rightarrow>
                 ([to_dicts conversation0,
                   to_dicts (conversation0
                             @ [\<lparr>msg_role = ''assistant'',
                                 msg_content = JStr (''Error sending message: '' @ ex),
                                 msg_metadata = None\<rparr>])],
                  current_time)
             | Sent \<Rightarrow>
                 (to_dicts conversation0 # fst (stream_turn env items ending conversation0),
                  current_time))))"

subsection \<open>Notions the transcript properties are stated with\<close>

definition bubble_count :: "string \<Rightarrow> ChatMessage list \<Rightarrow> nat" where
  "bubble_count bid conv = length (filter (is_bubble bid) conv)"


text \<open>The content of the most recent plain assistant entry, if there is one.\<close>

definition open_entry_content :: "ChatMessage list \<Rightarrow> json option" where
  "open_entry_content conv =
     (case find_last is_plain_assistant conv of
        None \<Rightarrow> None
      | Some i \<Rightarrow> Some (msg_content (conv ! i)))"


text \<open>A small environment and inputs for evaluating the reducer. Its \<open>json_loads\<close> is
  \<^verbatim>\<open>json.loads\<close> on the two outputs the samples carry, \<^verbatim>\<open>{}\<close> and \<^verbatim>\<open>5\<close>.\<close>

definition demo_env :: chat_env where
  "demo_env =
     \<lparr>tool_titles = [(''check_item_stock'', ''Checking Stock''),
                     (''bing_grounding'', ''Searching Web Sources'')],
      tool_icons_status = [(''pending'', ''...''), (''done'', ''ok''), (''error'', ''x'')],
      default_icon = ''tool '',
      json_loads = (\<lambda>s. if s = ''{}'' then Some (JObj []) else if s = ''5'' then Some (JInt 5)
                         else None),
      py_repr = (\<lambda>v. ''?'')\<rparr>"


definition null_arguments_call :: "string \<Rightarrow> string \<Rightarrow> tool_call_data" where
  "null_arguments_call cid fname =
     \<lparr>tc_id = Some cid, tc_type = Some ''function'',
      tc_function = Present \<lparr>fn_name = Some fname, fn_arguments = Null, fn_output = None\<rparr>,
      tc_requesturl = Missing\<rparr>"


definition user_entry :: "string \<Rightarrow> ChatMessage" where
  "user_entry text = \<lparr>msg_role = ''user'', msg_content = JStr text, msg_metadata = None\<rparr>"

definition assistant_entry :: "string \<Rightarrow> ChatMessage" where
  "assistant_entry text =
     \<lparr>msg_role = ''assistant'', msg_content = JStr text, msg_metadata = None\<rparr>"

subsection \<open>Auxiliary notions and sample inputs\<close>

text \<open>What one tool call may do to the inventory: nothing, or set the stock of one known
  item to a number that is not negative.\<close>

definition stock_step :: "(string \<times> item) list \<Rightarrow> (string \<times> item) list \<Rightarrow> bool" where
  "stock_step old new =
     (new = old \<or>
      (\<exists>k it n. map_of old k = Some it \<and> 0 \<le> n
                 \<and> new = AList.update k (it\<lparr>item_stock := n\<rparr>) old))"

text \<open>A list of completed calls touches a bubble key when one of them carries an output
  and has that key.\<close>

definition touches :: "string \<Rightarrow> tool_call_data list \<Rightarrow> bool" where
  "touches k tcs =
     (\<exists>tc\<in>set tcs. (\<exists>out. completed_output tc = Inr (Some out)) \<and> bubble_id (tc_id tc) = k)"

text \<open>No bubble key occurs twice in the transcript.\<close>

definition keys_unique :: "ChatMessage list \<Rightarrow> bool" where
  "keys_unique conv = (\<forall>k. bubble_count k conv \<le> 1)"

definition pending_store :: store where
  "pending_store = snd (request_item_from_storage ''SKU003'' 4 ''A2'' 1234 initial_store)"






definition null_arguments_event :: event where
  "null_arguments_event =
     RunStepDelta (Some ''tool_calls'') [null_arguments_call ''c1'' ''check_item_stock'']"



definition pending_bubble :: "string \<Rightarrow> ChatMessage" where
  "pending_bubble bid =
     \<lparr>msg_role = ''assistant'', msg_content = JStr ''Running...'',
      msg_metadata = Some [(''title'', ''... Checking Stock''), (''id'', bid),
                           (''status'', ''pending'')]\<rparr>"


definition hello_deltas :: "string \<Rightarrow> event list" where
  "hello_deltas mid =
     [MessageDelta mid [Some ''Hel''], MessageDelta mid [Some ''lo wor''],
      MessageDelta mid [Some ''ld'']]"

section \<open>Properties of the inventory store\<close>

lemma has_key_iff: "has_key d k \<longleftrightarrow> map_of d k \<noteq> None"
  by (simp add: has_key_def)

lemma set_update_subset: "set (AList.update k v al) \<subseteq> insert (k, v) (set al)"
  by (induction al) auto

lemma update_inventory_count_known:
  assumes "map_of (inventory s) item_id = Some it"
  shows "update_inventory_count item_id d reason s =
           (Inr (JObj [(''item_id'', JStr item_id), (''name'', JStr (item_name it)),
                       (''previous_stock'', JInt (item_stock it)),
                       (''new_stock'', JInt (max 0 (item_stock it + d))),
                       (''change'', JInt d), (''reason'', JStr reason)]),
            s\<lparr>inventory :=
                 AList.update item_id (it\<lparr>item_stock := max 0 (item_stock it + d)\<rparr>)
                   (inventory s)\<rparr>)"
  using assms by (simp add: update_inventory_count_def Let_def max_def)

lemma update_inventory_count_unknown:
  assumes "map_of (inventory s) item_id = None"
  shows "update_inventory_count item_id d reason s =
           (Inr (error_obj (''Item ID '' @ item_id @ '' not found.'')), s)"
  using assms by (simp add: update_inventory_count_def)

lemma uic_frame:
  "shelf_layouts (snd (update_inventory_count i d r s)) = shelf_layouts s"
  "storage_requests (snd (update_inventory_count i d r s)) = storage_requests s"
  by (simp_all add: update_inventory_count_def Let_def split: option.splits)

lemma uic_stock_step: "stock_step (inventory s) (inventory (snd (update_inventory_count i d r s)))"
proof (cases "map_of (inventory s) i")
  case None then show ?thesis by (simp add: update_inventory_count_unknown stock_step_def)
next
  case (Some it)
  show ?thesis unfolding stock_step_def update_inventory_count_known[OF Some]
    apply (rule disjI2) apply (rule exI[of _ i]) apply (rule exI[of _ it]) apply (rule exI[of _ "max 0 (item_stock it + d)"])
    using Some by simp
qed

lemma write_slot_frame:
  "inventory (write_slot sh r p i s) = inventory s"
  "storage_requests (write_slot sh r p i s) = storage_requests s"
  by (simp_all add: write_slot_def split: option.splits)


lemma is_error_error_obj [simp]: "is_error (error_obj m)"
  by (simp add: is_error_def error_obj_def)

lemma error_text_error_obj [simp]: "error_text (error_obj m) = m"
  by (simp add: error_text_def error_obj_def)

lemma uic_not_error:
  "map_of (inventory s) i = Some it \<Longrightarrow>
     \<exists>upd. fst (update_inventory_count i d r s) = Inr upd \<and> \<not> is_error upd"
  by (simp add: update_inventory_count_known is_error_def)

lemma mark_state_cases:
  "snd (mark_item_restocked i sh r p q s) = s \<or>
   snd (mark_item_restocked i sh r p q s) =
     snd (update_inventory_count i q (''Restocked on '' @ slot_name sh r p)
            (write_slot sh (nat r) (nat p) i s))"
  by (auto simp: mark_item_restocked_def Let_def split: option.splits prod.splits sum.splits)

lemma mark_valid:
  assumes v: "valid_restock_args item_id shelf_id r p q s"
    and it: "map_of (inventory s) item_id = Some it"
  shows "mark_item_restocked item_id shelf_id r p q s =
     (case update_inventory_count item_id q (''Restocked on '' @ slot_name shelf_id r p)
             (write_slot shelf_id (nat r) (nat p) item_id s) of
        (Inr upd, s2) \<Rightarrow>
          (Inr (JObj [(''message'',
                        JStr (''Successfully restocked '' @ str_int q @ '' of '' @ item_name it
                              @ '' ('' @ item_id @ '') at '' @ slot_name shelf_id r p @ ''.'')),
                      (''inventory_update'', upd)]), s2)
      | (Inl e, s2) \<Rightarrow> (Inl e, s2))"
proof -
  from v obtain layout where l: "map_of (shelf_layouts s) shelf_id = Some layout"
    and b: "0 \<le> r" "r < int (length layout)" "0 \<le> p" "p < int (length (layout ! nat r))"
    and q: "0 < q"
    by (auto simp: valid_restock_args_def split: option.splits)
  let ?s1 = "write_slot shelf_id (nat r) (nat p) item_id s"
  have it1: "map_of (inventory ?s1) item_id = Some it"
    using it by (simp add: write_slot_frame)
  show ?thesis
    using l b q it
    by (simp add: mark_item_restocked_def has_key_def Let_def
        update_inventory_count_known[OF it1] is_error_def subscript_def AList.update_conv')
qed

lemma mark_invalid:
  assumes "\<not> valid_restock_args item_id shelf_id r p q s"
  shows "\<exists>m. mark_item_restocked item_id shelf_id r p q s = (Inr (error_obj m), s)"
  using assms
  by (auto simp: mark_item_restocked_def valid_restock_args_def split: option.splits)

lemma log_state_cases:
  "snd (log_damaged_item i q n s) = s \<or>
   snd (log_damaged_item i q n s) = snd (update_inventory_count i (- q) (damage_reason n) s)"
  by (auto simp: log_damaged_item_def Let_def split: prod.splits sum.splits)

lemma find_item_location_state [simp]: "snd (find_item_location i s) = s"
  by (simp add: find_item_location_def split: option.splits)

lemma identify_state_cases:
  "snd (identify_and_restock_item_from_image d q s) = s \<or>
   (\<exists>sh r p. snd (identify_and_restock_item_from_image d q s) =
       snd (mark_item_restocked d sh r p q s))"
proof -
  obtain a s0 where f: "find_item_location d s = (a, s0)" by (cases "find_item_location d s")
  then have "s0 = s" using find_item_location_state[of d s] by simp
  with f show ?thesis
    apply (simp add: identify_and_restock_item_from_image_def Let_def
        split: option.splits prod.splits sum.splits json.splits)
    apply (intro conjI impI allI)
    apply (metis snd_conv)+
    done
qed


lemma stock_step_refl [simp]: "stock_step x x"
  by (simp add: stock_step_def)

lemma mark_frame:
  "storage_requests (snd (mark_item_restocked i sh r p q s)) = storage_requests s"
  using mark_state_cases[of i sh r p q s]
  by (auto simp: uic_frame write_slot_frame)

lemma mark_stock_step:
  "stock_step (inventory s) (inventory (snd (mark_item_restocked i sh r p q s)))"
proof -
  have "stock_step (inventory (write_slot sh (nat r) (nat p) i s))
          (inventory (snd (update_inventory_count i q (''Restocked on '' @ slot_name sh r p)
             (write_slot sh (nat r) (nat p) i s))))"
    by (rule uic_stock_step)
  then show ?thesis
    using mark_state_cases[of i sh r p q s]
    by (auto simp: write_slot_frame)
qed

lemma log_frame:
  "shelf_layouts (snd (log_damaged_item i q n s)) = shelf_layouts s"
  "storage_requests (snd (log_damaged_item i q n s)) = storage_requests s"
  using log_state_cases[of i q n s] by (auto simp: uic_frame)

lemma log_stock_step:
  "stock_step (inventory s) (inventory (snd (log_damaged_item i q n s)))"
  using log_state_cases[of i q n s] uic_stock_step[of s i "- q" "damage_reason n"]
  by auto

lemma identify_frame:
  "storage_requests (snd (identify_and_restock_item_from_image d q s)) = storage_requests s"
  using identify_state_cases[of d q s] by (auto simp: mark_frame)

lemma identify_stock_step:
  "stock_step (inventory s) (inventory (snd (identify_and_restock_item_from_image d q s)))"
  using identify_state_cases[of d q s] mark_stock_step[of s d]
  by auto

lemma request_frame:
  "inventory (snd (request_item_from_storage i q t draw s)) = inventory s"
  "shelf_layouts (snd (request_item_from_storage i q t draw s)) = shelf_layouts s"
  by (simp_all add: request_item_from_storage_def Let_def split: sum.splits)

lemma delivery_frame:
  "inventory (snd (check_delivery_status r u1 u2 s)) = inventory s"
  "shelf_layouts (snd (check_delivery_status r u1 u2 s)) = shelf_layouts s"
  by (simp_all add: check_delivery_status_def Let_def split: option.splits)

lemma read_only_state:
  "snd (check_item_stock i s) = s"
  "snd (get_shelf_layout sh s) = s"
  "snd (get_items_needing_restock c m s) = s"
  "snd (get_store_layout_overview s) = s"
  by (simp_all add: check_item_stock_def get_shelf_layout_def get_items_needing_restock_def
      get_store_layout_overview_def Let_def split: option.splits)

lemma call_tool_stock_step:
  "stock_step (inventory s) (inventory (snd (call_tool c draw u1 u2 s)))"
  by (cases c)
     (simp_all add: read_only_state request_frame delivery_frame uic_stock_step
        mark_stock_step log_stock_step identify_stock_step)

lemma stock_step_entries:
  assumes "stock_step old new" and "e \<in> set new"
  shows "e \<in> set old \<or> 0 \<le> item_stock (snd e)"
  using assms set_update_subset unfolding stock_step_def by fastforce

lemma has_key_update: "has_key al k \<Longrightarrow> has_key (AList.update k' v al) k"
  by (simp add: has_key_def AList.update_conv')

lemma request_keys:
  "has_key (storage_requests s) k \<Longrightarrow>
     has_key (storage_requests (snd (request_item_from_storage i q t draw s))) k"
  by (simp add: request_item_from_storage_def Let_def has_key_update split: sum.splits)

lemma delivery_keys:
  "has_key (storage_requests s) k \<Longrightarrow>
     has_key (storage_requests (snd (check_delivery_status r u1 u2 s))) k"
  by (simp add: check_delivery_status_def Let_def has_key_update split: option.splits)

lemma call_tool_keeps_requests:
  "has_key (storage_requests s) k \<Longrightarrow>
     has_key (storage_requests (snd (call_tool c draw u1 u2 s))) k"
  by (cases c)
     (simp_all add: read_only_state request_keys delivery_keys uic_frame mark_frame log_frame
        identify_frame)


lemma index_of_None_iff: "index_of x ys = None \<longleftrightarrow> x \<notin> set ys"
  by (induction ys) (auto split: option.splits)

lemma filter_row_None:
  "index_of x shelf = None \<Longrightarrow>
     filter (\<lambda>e. snd e = x) (map (\<lambda>pc. ((r, fst pc), snd pc)) (enumerate n shelf)) = []"
  by (induction shelf arbitrary: n) (auto split: option.splits if_splits)

lemma filter_row_Some:
  "index_of x shelf = Some i \<Longrightarrow>
     \<exists>more. filter (\<lambda>e. snd e = x) (map (\<lambda>pc. ((r, fst pc), snd pc)) (enumerate n shelf))
             = ((r, n + i), x) # more"
proof (induction shelf arbitrary: n i)
  case Nil
  then show ?case by simp
next
  case (Cons y ys)
  show ?case
  proof (cases "y = x")
    case True
    with Cons.prems show ?thesis by simp
  next
    case False
    with Cons.prems obtain j where j: "index_of x ys = Some j" "i = Suc j"
      by (auto split: option.splits)
    from Cons.IH[OF j(1), of "Suc n"] False j(2) show ?thesis by simp
  qed
qed

lemma first_slot_holding_Nil [simp]: "first_slot_holding x k [] = None"
  by (simp add: first_slot_holding_def scan_slots_def)

lemma first_slot_holding_Cons:
  "first_slot_holding x k (shelf # rest) =
     (case index_of x shelf of
        Some p \<Rightarrow> Some (k, p)
      | None \<Rightarrow> first_slot_holding x (Suc k) rest)"
proof (cases "index_of x shelf")
  case None
  then show ?thesis
    by (simp add: first_slot_holding_def scan_slots_def row_slots_def filter_row_None)
next
  case (Some p)
  from filter_row_Some[OF Some, of k 0] obtain more where
    "filter (\<lambda>e. snd e = x) (row_slots k shelf) = ((k, p), x) # more"
    by (auto simp: row_slots_def)
  with Some show ?thesis
    by (simp add: first_slot_holding_def scan_slots_def)
qed

lemma find_slot_scan:
  "find_slot item_id rows k (sx, px) =
     (case first_slot_holding (Some item_id) k rows of
        Some (r, p) \<Rightarrow> (int r, int p)
      | None \<Rightarrow>
          if sx = - 1 then
            (case first_slot_holding None k rows of
               Some (r, p) \<Rightarrow> (int r, int p)
             | None \<Rightarrow> (sx, px))
          else (sx, px))"
proof (induction rows arbitrary: k sx px)
  case Nil
  then show ?case by simp
next
  case (Cons shelf rest)
  show ?case
    by (simp add: first_slot_holding_Cons Cons.IH split: option.splits)
qed

lemma find_slot_resolved:
  "find_slot item_id rows 0 (- 1, - 1) =
     (case resolved_slot item_id rows of Some (r, p) \<Rightarrow> (int r, int p) | None \<Rightarrow> (- 1, - 1))"
  by (simp add: find_slot_scan resolved_slot_def split: option.splits)

lemma find_item_location_located:
  assumes "map_of (inventory s) i = Some it" "item_location_id it = Some sh" "sh \<noteq> []"
  shows "find_item_location i s =
    (Inr (JObj [(''item_id'', JStr i), (''name'', JStr (item_name it)),
                (''location_id'', JStr sh),
                (''position'', (case item_position it of Some p \<Rightarrow> JInt p | None \<Rightarrow> JStr ''N/A''))]), s)"
  using assms by (simp add: find_item_location_def)

lemma identify_resolves:
  assumes ne: "image_data \<noteq> []"
    and it: "map_of (inventory s) image_data = Some it"
    and loc: "item_location_id it = Some shelf_id" "shelf_id \<noteq> []"
  shows "identify_and_restock_item_from_image image_data quantity s =
     (case (case map_of (shelf_layouts s) shelf_id of
              Some layout \<Rightarrow> resolved_slot image_data layout
            | None \<Rightarrow> None) of
        None \<Rightarrow>
          (Inr (error_obj (''Could not determine specific shelf/position for item ''
                           @ image_data @ '' on shelf '' @ shelf_id
                           @ ''. Layout might need update.'')), s)
      | Some (r, p) \<Rightarrow>
          (case mark_item_restocked image_data shelf_id (int r) (int p) quantity s of
             (Inl e, s1) \<Rightarrow> (Inl e, s1)
           | (Inr restock_data, s1) \<Rightarrow>
               if is_error restock_data then
                 (Inr (error_obj (''Failed to restock after identification: ''
                                  @ error_text restock_data)), s1)
               else
                 (Inr (JObj [(''message'',
                                JStr (''Simulated vision identification and restocking ''
                                      @ ''complete for '' @ image_data @ ''.'')),
                             (''restock_details'', restock_data)]), s1)))"
  using ne
  by (simp add: identify_and_restock_item_from_image_def
      find_item_location_located[OF it loc] is_error_def find_slot_resolved
      split: option.splits prod.splits)

section \<open>Properties of the transcript reducer\<close>

lemma find_last_None_iff: "find_last P xs = None \<longleftrightarrow> (\<forall>x\<in>set xs. \<not> P x)"
  by (induction xs) (auto split: option.splits)

lemma find_last_Some:
  "find_last P xs = Some i \<Longrightarrow> i < length xs \<and> P (xs ! i)"
  by (induction xs arbitrary: i) (auto split: option.splits if_splits)

lemma find_last_append_hit: "P y \<Longrightarrow> find_last P (xs @ [y]) = Some (length xs)"
  by (induction xs) auto


lemma find_last_update:
  "i < length xs \<Longrightarrow> P y = P (xs ! i) \<Longrightarrow> find_last P (xs[i := y]) = find_last P xs"
proof (induction xs arbitrary: i)
  case Nil
  then show ?case by simp
next
  case (Cons x xs)
  then show ?case by (cases i) auto
qed

lemma filter_length_update:
  "i < length xs \<Longrightarrow> P y = P (xs ! i) \<Longrightarrow>
     length (filter P (xs[i := y])) = length (filter P xs)"
proof (induction xs arbitrary: i)
  case Nil
  then show ?case by simp
next
  case (Cons x xs)
  then show ?case by (cases i) auto
qed

lemma is_bubble_update_bubble [simp]:
  "is_bubble k (update_bubble title status content msg) = is_bubble k msg"
  by (cases "msg_metadata msg")
     (auto simp: is_bubble_def update_bubble_def AList.update_conv')

lemma is_bubble_new [simp]:
  "is_bubble k \<lparr>msg_role = r, msg_content = c,
       msg_metadata = Some [(''title'', t), (''id'', bid), (''status'', s)]\<rparr> \<longleftrightarrow> k = bid"
  by (auto simp: is_bubble_def)

lemma bubble_count_pos_iff: "0 < bubble_count k conv \<longleftrightarrow> find_last (is_bubble k) conv \<noteq> None"
  by (auto simp: bubble_count_def find_last_None_iff filter_empty_conv)

lemma create_tool_bubble_hit:
  assumes "find_last (is_bubble (bubble_id call_id)) conv = Some i"
  shows "create_tool_bubble env (Some tn) content call_id status conv
           = (if sliceable content then
                Inr (conv[i := update_bubble (bubble_title env tn status) status content (conv ! i)])
              else Inl TypeError)"
  using assms by (simp add: create_tool_bubble_def Let_def)

lemma create_tool_bubble_miss:
  assumes "find_last (is_bubble (bubble_id call_id)) conv = None"
  shows "create_tool_bubble env (Some tn) content call_id status conv
           = (if sliceable content then
                Inr (conv @ [\<lparr>msg_role = ''assistant'', msg_content = content,
                       msg_metadata = Some [(''title'', bubble_title env tn status),
                                            (''id'', bubble_id call_id),
                                            (''status'', status)]\<rparr>])
              else Inl TypeError)"
  using assms by (simp add: create_tool_bubble_def Let_def)

lemma bubble_count_create:
  assumes "create_tool_bubble env (Some tn) content call_id status conv = Inr conv'"
  shows "bubble_count k conv' =
     (if k = bubble_id call_id then max 1 (bubble_count k conv) else bubble_count k conv)"
proof (cases "find_last (is_bubble (bubble_id call_id)) conv")
  case None
  have c: "conv' = conv @ [\<lparr>msg_role = ''assistant'', msg_content = content,
                       msg_metadata = Some [(''title'', bubble_title env tn status),
                                            (''id'', bubble_id call_id),
                                            (''status'', status)]\<rparr>]"
    using assms create_tool_bubble_miss[OF None, of env tn content status]
    by (simp split: if_splits)
  have z: "bubble_count (bubble_id call_id) conv = 0"
    using None bubble_count_pos_iff[of "bubble_id call_id" conv] by simp
  show ?thesis using z by (auto simp: c bubble_count_def)
next
  case (Some i)
  let ?title = "bubble_title env tn status"
  have c: "conv' = conv[i := update_bubble ?title status content (conv ! i)]"
    using assms create_tool_bubble_hit[OF Some, of env tn content status]
    by (simp split: if_splits)
  have i: "i < length conv" using find_last_Some[OF Some] by simp
  have p: "0 < bubble_count (bubble_id call_id) conv"
    using Some bubble_count_pos_iff[of "bubble_id call_id" conv] by simp
  have "bubble_count k (conv[i := update_bubble ?title status content (conv ! i)])
          = bubble_count k conv"
    unfolding bubble_count_def by (rule filter_length_update[OF i]) simp
  with p show ?thesis by (auto simp: c)
qed





lemma touches_Nil [simp]: "\<not> touches k []"
  by (simp add: touches_def)

lemma touches_Cons [simp]:
  "touches k (tc # tcs) \<longleftrightarrow>
     ((\<exists>out. completed_output tc = Inr (Some out)) \<and> bubble_id (tc_id tc) = k) \<or> touches k tcs"
  by (auto simp: touches_def)






lemma turn_item_run_step:
  "turn_item env (RunStep step_type status tool_calls last_error) hs
     = (fst (process_event env (RunStep step_type status tool_calls last_error) (snd hs)),
        fst hs,
        snd (process_event env (RunStep step_type status tool_calls last_error) (snd hs)))"
  by (simp add: turn_item_def Let_def)



text \<open>Outputs on which the body of the loop runs to its end.\<close>

lemma completion_message_not_json:
  "json_loads env out = None \<Longrightarrow>
     completion_message env fname out
       = Inr (JStr (''Completed. Output (non-JSON): '' @ truncated out))"
  by (simp add: completion_message_def)

lemma message_or_error_object:
  "\<exists>msg. message_or_error env out (JObj kvs) = Inr msg
         \<and> (msg \<in> ran (map_of kvs) \<or> (\<exists>s. msg = JStr s))"
proof (cases "map_of kvs ''message''")
  case (Some v)
  then show ?thesis by (auto simp: message_or_error_def has_key_def ran_def)
next
  case None
  then show ?thesis
    by (cases "map_of kvs ''error''") (simp_all add: message_or_error_def has_key_def)
qed

lemma completion_message_object:
  assumes "json_loads env out = Some (JObj kvs)"
  shows "\<exists>msg. completion_message env fname out = Inr msg
           \<and> (msg \<in> ran (map_of kvs) \<or> (\<exists>s. msg = JStr s))"
proof (cases "fname = ''get_shelf_layout'' \<and> map_of kvs ''layout_visual'' \<noteq> None")
  case True
  then show ?thesis using assms by (auto simp: completion_message_def has_key_def ran_def)
next
  case False
  then have "completion_message env fname out = message_or_error env out (JObj kvs)"
    using assms by (auto simp: completion_message_def has_key_def)
  then show ?thesis using message_or_error_object[of env out kvs] by simp
qed

lemma single_completed_call_done:
  assumes "completed_output tc = Inr (Some out)"
    and "json_loads env out = None
         \<or> (\<exists>kvs. json_loads env out = Some (JObj kvs) \<and> (\<forall>v\<in>ran (map_of kvs). sliceable v))"
  shows "fst (turn_item env (RunStep (Some ''tool_calls'') ''completed'' [tc] last_error) hs)
           = Done"
proof -
  let ?fname = "tracked_name (active_tool_calls (snd hs)) (tc_id tc)"
  obtain msg where msg: "completion_message env ?fname out = Inr msg" "sliceable msg"
  proof (cases "json_loads env out")
    case None
    then show ?thesis using that completion_message_not_json[of env out ?fname] by simp
  next
    case (Some j)
    with assms(2) obtain kvs where k: "json_loads env out = Some (JObj kvs)"
      "\<forall>v\<in>ran (map_of kvs). sliceable v" by auto
    from completion_message_object[OF k(1), of ?fname] k(2) that show ?thesis by auto
  qed
  have "\<exists>conv'. create_tool_bubble env (Some ?fname) msg (tc_id tc) ''done''
                   (conversation (snd hs)) = Inr conv'"
    using msg(2) by (simp add: create_tool_bubble_def Let_def split: option.splits)
  then show ?thesis
    using assms(1) msg(1)
    by (auto simp: turn_item_run_step step_tool_call_def Let_def)
qed


lemma plain_assistant_entry [simp]: "is_plain_assistant (assistant_entry t)"
  by (simp add: is_plain_assistant_def assistant_entry_def has_metadata_def)

lemma not_plain_user [simp]: "\<not> is_plain_assistant (user_entry t)"
  by (simp add: is_plain_assistant_def user_entry_def)

lemma content_assistant_entry [simp]: "msg_content (assistant_entry a) = JStr a"
  by (simp add: assistant_entry_def)

lemma assistant_entry_content_update [simp]:
  "(assistant_entry a)\<lparr>msg_content := JStr b\<rparr> = assistant_entry b"
  by (simp add: assistant_entry_def)

lemma append_delta_open:
  assumes "conv \<noteq> []" "is_plain_assistant (last conv)"
  shows "append_delta frag conv
           = (case py_iadd (msg_content (last conv)) frag of
                Inl e \<Rightarrow> Inl e
              | Inr c \<Rightarrow> Inr (butlast conv @ [(last conv)\<lparr>msg_content := c\<rparr>]))"
  using assms by (simp add: append_delta_def is_plain_assistant_def)

lemma append_delta_new:
  assumes "conv = [] \<or> \<not> is_plain_assistant (last conv)"
  shows "append_delta frag conv = Inr (conv @ [assistant_entry frag])"
  using assms by (auto simp: append_delta_def is_plain_assistant_def assistant_entry_def)

text \<open>The body of the loop on its own, and the callback on its own, on the three deltas.\<close>

lemma loop_body_alone_hello:
  "conversation
     (snd (process_event env (MessageDelta mid [Some ''ld''])
        (snd (process_event env (MessageDelta mid [Some ''lo wor''])
           (snd (process_event env (MessageDelta mid [Some ''Hel''])
              \<lparr>conversation = history @ [user_entry u], active_tool_calls = a\<rparr>))))))
     = history @ [user_entry u, assistant_entry ''Hello world'']"
proof -
  have 1: "append_delta ''Hel'' (history @ [user_entry u])
             = Inr (history @ [user_entry u, assistant_entry ''Hel''])"
    by (simp add: append_delta_new)
  have 2: "append_delta ''lo wor'' (history @ [user_entry u, assistant_entry ''Hel''])
             = Inr (history @ [user_entry u, assistant_entry ''Hello wor''])"
    using append_delta_open[of "history @ [user_entry u, assistant_entry ''Hel'']" "''lo wor''"]
    by (simp add: butlast_append)
  have 3: "append_delta ''ld'' (history @ [user_entry u, assistant_entry ''Hello wor''])
             = Inr (history @ [user_entry u, assistant_entry ''Hello world''])"
    using append_delta_open[of "history @ [user_entry u, assistant_entry ''Hello wor'']" "''ld''"]
    by (simp add: butlast_append)
  show ?thesis
    by (simp add: delta_text_def Let_def 1 2 3)
qed

lemma find_last_update_hit:
  "find_last P xs = Some i \<Longrightarrow> P y \<Longrightarrow> find_last P (xs[i := y]) = Some i"
  using find_last_update[of i xs P y] find_last_Some[of P xs i] by simp

lemma plain_content_update [simp]:
  "is_plain_assistant (m\<lparr>msg_content := c\<rparr>) = is_plain_assistant m"
  by (simp add: is_plain_assistant_def has_metadata_def)

lemma handler_first:
  assumes "conv \<noteq> []" "delta_text chunks \<noteq> []" "current_message_id h \<noteq> Some mid"
  shows "\<exists>conv'. on_message_delta mid chunks (h, conv)
            = (\<lparr>current_message_id = Some mid, accumulated_text = delta_text chunks\<rparr>, conv')
          \<and> conv' \<noteq> [] \<and> open_entry_content conv' = Some (JStr (delta_text chunks))"
proof (cases "find_last is_plain_assistant conv")
  case None
  then have "\<not> is_plain_assistant (last conv)"
    using assms(1) by (simp add: find_last_None_iff)
  then have c: "msg_role (last conv) \<noteq> ''assistant'' \<or> has_metadata (last conv)"
    by (simp add: is_plain_assistant_def)
  show ?thesis
    using None assms c
    by (cases h)
       (auto simp: on_message_delta_def Let_def open_entry_content_def find_last_append_hit
          is_plain_assistant_def has_metadata_def)
next
  case (Some i)
  then show ?thesis
    using assms find_last_Some[OF Some]
    by (cases h)
       (auto simp: on_message_delta_def Let_def open_entry_content_def find_last_update_hit)
qed

lemma handler_next:
  assumes "conv \<noteq> []" "delta_text chunks \<noteq> []" "current_message_id h = Some mid"
    and "open_entry_content conv \<noteq> None"
  shows "\<exists>conv'. on_message_delta mid chunks (h, conv)
            = (h\<lparr>accumulated_text := accumulated_text h @ delta_text chunks\<rparr>, conv')
          \<and> conv' \<noteq> []
          \<and> open_entry_content conv' = Some (JStr (accumulated_text h @ delta_text chunks))"
proof -
  from assms(4) obtain i where i: "find_last is_plain_assistant conv = Some i"
    by (auto simp: open_entry_content_def split: option.splits)
  show ?thesis
    using assms(1-3) i find_last_Some[OF i]
    by (auto simp: on_message_delta_def Let_def open_entry_content_def find_last_update_hit)
qed

lemma handler_alone_hello:
  "open_entry_content
     (snd (on_message_delta mid [Some ''ld'']
            (on_message_delta mid [Some ''lo wor'']
              (on_message_delta mid [Some ''Hel''] (fresh_handler, history @ [user_entry u])))))
     = Some (JStr ''Hello world'')"
proof -
  obtain c1 where 1: "on_message_delta mid [Some ''Hel''] (fresh_handler, history @ [user_entry u])
        = (\<lparr>current_message_id = Some mid, accumulated_text = ''Hel''\<rparr>, c1)"
      "c1 \<noteq> []" "open_entry_content c1 = Some (JStr ''Hel'')"
    using handler_first[of "history @ [user_entry u]" "[Some ''Hel'']" fresh_handler mid]
    by (auto simp: delta_text_def fresh_handler_def)
  obtain c2 where 2: "on_message_delta mid [Some ''lo wor'']
          (\<lparr>current_message_id = Some mid, accumulated_text = ''Hel''\<rparr>, c1)
        = (\<lparr>current_message_id = Some mid, accumulated_text = ''Hello wor''\<rparr>, c2)"
      "c2 \<noteq> []" "open_entry_content c2 = Some (JStr ''Hello wor'')"
    using handler_next[of c1 "[Some ''lo wor'']"
        "\<lparr>current_message_id = Some mid, accumulated_text = ''Hel''\<rparr>" mid] 1
    by (auto simp: delta_text_def)
  obtain c3 where 3: "on_message_delta mid [Some ''ld'']
          (\<lparr>current_message_id = Some mid, accumulated_text = ''Hello wor''\<rparr>, c2)
        = (\<lparr>current_message_id = Some mid, accumulated_text = ''Hello world''\<rparr>, c3)"
      "open_entry_content c3 = Some (JStr ''Hello world'')"
    using handler_next[of c2 "[Some ''ld'']"
        "\<lparr>current_message_id = Some mid, accumulated_text = ''Hello wor''\<rparr>" mid] 2
    by (auto simp: delta_text_def)
  show ?thesis by (simp add: 1 2 3)
qed

lemma stream_turn_failed:
  "fst (stream_turn env items (Failed ex) conversation0)
     = butlast (fst (stream_turn env items Finished conversation0))
       @ [last (fst (stream_turn env items Finished conversation0))
          @ [convert_chatmessage_to_dict (stream_error_entry ex)]]
   \<and> snd (stream_turn env items (Failed ex) conversation0)
     = snd (stream_turn env items Finished conversation0) @ [stream_error_entry ex]"
  by (simp add: stream_turn_def Let_def to_dicts_def butlast_append)

lemma azure_store_chat_sent:
  assumes "\<not> current_time - last_message_sent_time < 2" "strip user_message \<noteq> []"
  shows "fst (azure_store_chat env current_time last_message_sent_time Sent items ending
                user_message history)
           = to_dicts (map convert_dict_to_chatmessage history
                       @ [\<lparr>msg_role = ''user'', msg_content = JStr user_message,
                           msg_metadata = None\<rparr>])
             # fst (stream_turn env items ending
                      (map convert_dict_to_chatmessage history
                       @ [\<lparr>msg_role = ''user'', msg_content = JStr user_message,
                           msg_metadata = None\<rparr>]))"
  using assms by (simp add: azure_store_chat_def Let_def)

lemma stream_turn_yields_nonempty: "fst (stream_turn env items ending conversation0) \<noteq> []"
  by (simp add: stream_turn_def Let_def)


text \<open>Callback and loop body together.\<close>

lemma find_last_last:
  "xs \<noteq> [] \<Longrightarrow> P (last xs) \<Longrightarrow> find_last P xs = Some (length xs - 1)"
proof (induction xs)
  case Nil
  then show ?case by simp
next
  case (Cons x xs)
  show ?case
  proof (cases "xs = []")
    case True
    with Cons.prems show ?thesis by simp
  next
    case False
    with Cons.prems Cons.IH have "find_last P xs = Some (length xs - 1)" by simp
    with False show ?thesis by simp
  qed
qed

lemma update_last: "xs \<noteq> [] \<Longrightarrow> xs[length xs - 1 := y] = butlast xs @ [y]"
  by (induction xs) (auto split: nat.splits)

lemma turn_item_on_open_entry:
  assumes "conversation st = pre @ [assistant_entry x]"
    and "current_message_id h = Some mid" and "frag \<noteq> []"
  shows "turn_item env (MessageDelta mid [Some frag]) (h, st)
           = (Done, h\<lparr>accumulated_text := accumulated_text h @ frag\<rparr>,
              st\<lparr>conversation :=
                   pre @ [assistant_entry (accumulated_text h @ frag @ frag)]\<rparr>)"
proof -
  let ?conv = "pre @ [assistant_entry x]"
  have f: "find_last is_plain_assistant ?conv = Some (length pre)"
    using find_last_last[of ?conv is_plain_assistant] by simp
  have h: "on_message_delta mid [Some frag] (h, ?conv)
             = (h\<lparr>accumulated_text := accumulated_text h @ frag\<rparr>,
                pre @ [assistant_entry (accumulated_text h @ frag)])"
    using assms(2,3) f by (simp add: on_message_delta_def Let_def delta_text_def)
  have a: "append_delta frag (pre @ [assistant_entry (accumulated_text h @ frag)])
             = Inr (pre @ [assistant_entry (accumulated_text h @ frag @ frag)])"
    using append_delta_open[of "pre @ [assistant_entry (accumulated_text h @ frag)]" frag]
    by (simp add: butlast_append)
  show ?thesis
    using assms(3) by (simp add: turn_item_def Let_def assms(1) h a delta_text_def)
qed

lemma turn_item_first_delta:
  assumes "conversation st = history @ [user_entry u]" and "frag \<noteq> []"
  shows "\<exists>pre x. length pre = length history
           \<and> turn_item env (MessageDelta mid [Some frag]) (fresh_handler, st)
               = (Done, \<lparr>current_message_id = Some mid, accumulated_text = frag\<rparr>,
                  st\<lparr>conversation := pre @ [user_entry u, assistant_entry x]\<rparr>)"
proof (cases "find_last is_plain_assistant (history @ [user_entry u])")
  case None
  then have n: "\<not> is_plain_assistant (last (history @ [user_entry u]))" by simp
  have h: "on_message_delta mid [Some frag] (fresh_handler, history @ [user_entry u])
             = (\<lparr>current_message_id = Some mid, accumulated_text = frag\<rparr>,
                history @ [user_entry u, assistant_entry frag])"
    using None assms(2)
    by (simp add: on_message_delta_def Let_def delta_text_def fresh_handler_def
        user_entry_def assistant_entry_def)
  have a: "append_delta frag (history @ [user_entry u, assistant_entry frag])
             = Inr (history @ [user_entry u, assistant_entry (frag @ frag)])"
    using append_delta_open[of "history @ [user_entry u, assistant_entry frag]" frag]
    by (simp add: butlast_append)
  show ?thesis
    using assms(2)
    by (intro exI[of _ history] exI[of _ "frag @ frag"])
       (simp add: turn_item_def Let_def assms(1) h a delta_text_def)
next
  case (Some i)
  let ?c = "history @ [user_entry u]"
  have i: "i < length ?c" "is_plain_assistant (?c ! i)"
    using find_last_Some[OF Some] by simp_all
  then have ih: "i < length history"
    by (cases "i = length history") (auto simp: nth_append)
  let ?h' = "history[i := (history ! i)\<lparr>msg_content := JStr frag\<rparr>]"
  have h: "on_message_delta mid [Some frag] (fresh_handler, ?c)
             = (\<lparr>current_message_id = Some mid, accumulated_text = frag\<rparr>,
                ?h' @ [user_entry u])"
    using Some assms(2) ih
    by (simp add: on_message_delta_def Let_def delta_text_def fresh_handler_def
        list_update_append nth_append)
  have a: "append_delta frag (?h' @ [user_entry u])
             = Inr (?h' @ [user_entry u, assistant_entry frag])"
    by (simp add: append_delta_new)
  show ?thesis
    using assms(2)
    by (intro exI[of _ ?h'] exI[of _ frag])
       (simp add: turn_item_def Let_def assms(1) h a delta_text_def)
qed

lemma consume_Done:
  "turn_item env ev hs = (Done, hs1) \<Longrightarrow>
     consume env (ev # rest) hs
       = (to_dicts (conversation (snd hs1)) # fst (consume env rest hs1),
          snd (consume env rest hs1))"
  by (simp add: Let_def)

lemma consume_Raised:
  "turn_item env ev hs = (Raised e, hs1) \<Longrightarrow> consume env (ev # rest) hs = consume env rest hs1"
  by simp

lemma hello_entered_twice:
  "\<exists>pre. length pre = length history
     \<and> snd (stream_turn env (hello_deltas mid) Finished (history @ [user_entry u]))
         = pre @ [user_entry u, assistant_entry ''Hello worldld'']"
proof -
  let ?st0 = "\<lparr>conversation = history @ [user_entry u], active_tool_calls = []\<rparr>"
  from turn_item_first_delta[of ?st0 history u "''Hel''" env mid]
  obtain pre x where p: "length pre = length history"
    and 1: "turn_item env (MessageDelta mid [Some ''Hel'']) (fresh_handler, ?st0)
              = (Done, \<lparr>current_message_id = Some mid, accumulated_text = ''Hel''\<rparr>,
                 \<lparr>conversation = pre @ [user_entry u, assistant_entry x],
                  active_tool_calls = []\<rparr>)"
    by auto
  let ?st1 = "\<lparr>conversation = pre @ [user_entry u, assistant_entry x],
               active_tool_calls = []\<rparr>"
  let ?h1 = "\<lparr>current_message_id = Some mid, accumulated_text = ''Hel''\<rparr>"
  let ?st2 = "\<lparr>conversation = pre @ [user_entry u, assistant_entry ''Hello worlo wor''],
               active_tool_calls = []\<rparr>"
  let ?h2 = "\<lparr>current_message_id = Some mid, accumulated_text = ''Hello wor''\<rparr>"
  let ?st3 = "\<lparr>conversation = pre @ [user_entry u, assistant_entry ''Hello worldld''],
               active_tool_calls = []\<rparr>"
  let ?h3 = "\<lparr>current_message_id = Some mid, accumulated_text = ''Hello world''\<rparr>"
  have 2: "turn_item env (MessageDelta mid [Some ''lo wor'']) (?h1, ?st1) = (Done, ?h2, ?st2)"
    using turn_item_on_open_entry[of ?st1 "pre @ [user_entry u]" x ?h1 mid "''lo wor''" env]
    by simp
  have 3: "turn_item env (MessageDelta mid [Some ''ld'']) (?h2, ?st2) = (Done, ?h3, ?st3)"
    using turn_item_on_open_entry[of ?st2 "pre @ [user_entry u]" "''Hello worlo wor''" ?h2 mid
        "''ld''" env]
    by simp
  have "snd (snd (consume env (hello_deltas mid) (fresh_handler, ?st0))) = ?st3"
    unfolding hello_deltas_def
    by (simp only: consume_Done[OF 1] consume_Done[OF 2] consume_Done[OF 3] consume.simps(1)
        snd_conv)
  then have "snd (stream_turn env (hello_deltas mid) Finished (history @ [user_entry u]))
         = pre @ [user_entry u, assistant_entry ''Hello worldld'']"
    by (simp add: stream_turn_def Let_def)
  with p show ?thesis by blast
qed

text \<open>No item of the stream makes a bubble key occur twice.\<close>

lemma keys_unique_create:
  assumes "create_tool_bubble env tool_name content call_id status conv = Inr conv'"
    and "keys_unique conv"
  shows "keys_unique conv'"
proof (cases tool_name)
  case None
  with assms show ?thesis by (simp add: create_tool_bubble_def)
next
  case (Some tn)
  show ?thesis
    unfolding keys_unique_def
  proof
    fix k
    from assms(2) have "bubble_count k conv \<le> 1" by (simp add: keys_unique_def)
    then show "bubble_count k conv' \<le> 1"
      using bubble_count_create[OF assms(1)[unfolded Some], of k] by (simp split: if_splits)
  qed
qed

lemma bubble_count_content:
  "i < length conv \<Longrightarrow>
     bubble_count k (conv[i := (conv ! i)\<lparr>msg_content := c\<rparr>]) = bubble_count k conv"
  unfolding bubble_count_def by (rule filter_length_update) (simp_all add: is_bubble_def)

lemma bubble_count_plain:
  "msg_metadata m = None \<Longrightarrow> bubble_count k (conv @ [m]) = bubble_count k conv"
  by (simp add: bubble_count_def is_bubble_def)

lemma bubble_count_last_content:
  assumes "conv \<noteq> []"
  shows "bubble_count k (butlast conv @ [(last conv)\<lparr>msg_content := c\<rparr>]) = bubble_count k conv"
proof -
  have "bubble_count k (butlast conv @ [(last conv)\<lparr>msg_content := c\<rparr>])
          = bubble_count k (butlast conv @ [last conv])"
    by (simp add: bubble_count_def is_bubble_def)
  with assms show ?thesis by simp
qed

lemma bubble_count_on_message_delta:
  "bubble_count k (snd (on_message_delta mid chunks (h, conv))) = bubble_count k conv"
  by (auto simp: on_message_delta_def Let_def bubble_count_content bubble_count_plain
      dest: find_last_Some split: option.splits)

lemma bubble_count_on_thread_message:
  "bubble_count k (snd (on_thread_message role status parts (h, conv))) = bubble_count k conv"
  by (auto simp: on_thread_message_def Let_def bubble_count_last_content bubble_count_plain)

lemma bubble_count_handler:
  "bubble_count k (snd (handler_callback ev (h, conv))) = bubble_count k conv"
  by (induction ev)
     (simp_all add: bubble_count_on_message_delta bubble_count_on_thread_message)

lemma bubble_count_append_delta:
  "bubble_count k conv' = bubble_count k conv" if "append_delta content conv = Inr conv'"
proof (cases "conv = []")
  case True
  then show ?thesis
    using that by (auto simp: append_delta_def bubble_count_def is_bubble_def)
next
  case False
  then show ?thesis
    using that
    by (auto simp: append_delta_def bubble_count_last_content bubble_count_plain
        split: if_splits sum.splits)
qed

lemma keys_unique_start:
  "keys_unique (conversation st) \<Longrightarrow> start_tool_call env func_name cid st = (o1, st1) \<Longrightarrow>
     keys_unique (conversation st1)"
  by (auto simp: start_tool_call_def Let_def split: sum.splits if_splits
      dest: keys_unique_create)

lemma conversation_add_arguments:
  "conversation (snd (add_arguments arguments cid st)) = conversation st"
  by (simp add: add_arguments_def split: field.splits option.splits)

lemma keys_unique_delta_call:
  "keys_unique (conversation st) \<Longrightarrow>
     keys_unique (conversation (snd (delta_tool_call env tcall st)))"
  by (auto simp: delta_tool_call_def Let_def conversation_add_arguments
      split: field.splits option.splits prod.splits outcome.splits sum.splits
      dest: keys_unique_create keys_unique_start)

lemma keys_unique_step_call:
  "keys_unique (conversation st) \<Longrightarrow>
     keys_unique (conversation (snd (step_tool_call env status last_error tcall st)))"
  by (auto simp: step_tool_call_def Let_def split: sum.splits option.splits
      dest: keys_unique_create)

lemma keys_unique_run_calls:
  assumes "\<And>x st. keys_unique (conversation st) \<Longrightarrow> keys_unique (conversation (snd (f x st)))"
    and "keys_unique (conversation st)"
  shows "keys_unique (conversation (snd (run_calls f xs st)))"
  using assms(2)
proof (induction xs arbitrary: st)
  case Nil
  then show ?case by simp
next
  case (Cons x xs)
  obtain o1 st1 where s: "f x st = (o1, st1)" by (cases "f x st")
  have k: "keys_unique (conversation st1)" using assms(1)[OF Cons.prems, of x] s by simp
  show ?case
    using Cons.IH[OF k] k by (cases o1) (simp_all add: s)
qed

lemma keys_unique_process_event:
  assumes "keys_unique (conversation st)"
  shows "keys_unique (conversation (snd (process_event env ev st)))"
proof (cases ev)
  case (RunStepDelta step_type tool_calls)
  then show ?thesis
    using assms keys_unique_run_calls[of "delta_tool_call env" st tool_calls]
      keys_unique_delta_call by simp
next
  case (RunStep step_type status tool_calls last_error)
  then show ?thesis
    using assms keys_unique_run_calls[of "step_tool_call env status last_error" st tool_calls]
      keys_unique_step_call by simp
next
  case (MessageDelta mid chunks)
  then show ?thesis
    using assms
    by (auto simp: Let_def keys_unique_def bubble_count_append_delta split: sum.splits)
qed (use assms in simp_all)

lemma keys_unique_turn_item:
  assumes "keys_unique (conversation (snd hs))"
  shows "keys_unique (conversation (snd (snd (turn_item env ev hs))))"
proof -
  have "keys_unique (snd (handler_callback ev (fst hs, conversation (snd hs))))"
    using assms by (simp add: keys_unique_def bubble_count_handler)
  then show ?thesis
    using keys_unique_process_event[of
        "(snd hs)\<lparr>conversation := snd (handler_callback ev (fst hs, conversation (snd hs)))\<rparr>"
        env ev]
    by (simp add: turn_item_def Let_def)
qed

lemma keys_unique_consume:
  "keys_unique (conversation (snd hs)) \<Longrightarrow>
     keys_unique (conversation (snd (snd (consume env items hs))))"
proof (induction items arbitrary: hs)
  case Nil
  then show ?case by simp
next
  case (Cons ev items)
  obtain o1 hs1 where t: "turn_item env ev hs = (o1, hs1)" by (cases "turn_item env ev hs")
  have k: "keys_unique (conversation (snd hs1))"
    using keys_unique_turn_item[OF Cons.prems, of env ev] t by simp
  show ?case
    using Cons.IH[OF k] by (cases o1) (simp_all add: t Let_def)
qed

lemma keys_unique_stream_turn:
  assumes "keys_unique conversation0"
  shows "keys_unique (snd (stream_turn env items ending conversation0))"
proof -
  have "keys_unique (conversation (snd (snd (consume env items
          (fresh_handler, \<lparr>conversation = conversation0, active_tool_calls = []\<rparr>)))))"
    using keys_unique_consume[of "(fresh_handler, \<lparr>conversation = conversation0,
        active_tool_calls = []\<rparr>)" env items] assms by simp
  then show ?thesis
    by (cases ending)
       (simp_all add: stream_turn_def Let_def keys_unique_def bubble_count_plain
          stream_error_entry_def)
qed

section \<open>The claims\<close>



lemma demo_titles:
  "bubble_title demo_env ''check_item_stock'' ''pending'' = ''... Checking Stock''"
  "bubble_title demo_env ''check_item_stock'' ''done'' = ''ok Checking Stock''"
  "bubble_title demo_env ''unknown_function'' ''done'' = ''ok tool unknown_function''"
  by (simp_all add: bubble_title_def demo_env_def)




lemma write_slot_layout:
  assumes "map_of (shelf_layouts s) shelf_id = Some layout"
  shows "map_of (shelf_layouts (write_slot shelf_id r p item_id s)) shelf_id
           = Some (layout[r := (layout ! r)[p := Some item_id]])"
  using assms by (simp add: write_slot_def AList.update_conv')

text \<open>
  Claim C2. With valid arguments \<^verbatim>\<open>mark_item_restocked\<close> is the slot write followed by
  \<^verbatim>\<open>update_inventory_count\<close> with the quantity: it returns the store that call returns and
  reports its answer as \<^verbatim>\<open>inventory_update\<close>; the slot then holds the item and the stock
  has grown by the quantity. With any invalid argument it returns an error object and the
  store as it was.
\<close>

theorem mark_item_restocked_all_or_nothing:
  "(valid_restock_args item_id shelf_id shelf_index position_index quantity s \<longrightarrow>
      (\<exists>it upd s2 layout.
          map_of (inventory s) item_id = Some it
        \<and> map_of (shelf_layouts s) shelf_id = Some layout
        \<and> update_inventory_count item_id quantity
             (''Restocked on '' @ slot_name shelf_id shelf_index position_index)
             (write_slot shelf_id (nat shelf_index) (nat position_index) item_id s)
            = (Inr upd, s2)
        \<and> mark_item_restocked item_id shelf_id shelf_index position_index quantity s
            = (Inr (JObj [(''message'',
                            JStr (''Successfully restocked '' @ str_int quantity @ '' of ''
                                  @ item_name it @ '' ('' @ item_id @ '') at ''
                                  @ slot_name shelf_id shelf_index position_index @ ''.'')),
                          (''inventory_update'', upd)]), s2)
        \<and> map_of (shelf_layouts s2) shelf_id
            = Some (layout[nat shelf_index :=
                             (layout ! nat shelf_index)[nat position_index := Some item_id]])
        \<and> map_of (inventory s2) item_id
            = Some (it\<lparr>item_stock := max 0 (item_stock it + quantity)\<rparr>)))
   \<and> (\<not> valid_restock_args item_id shelf_id shelf_index position_index quantity s \<longrightarrow>
        (\<exists>m. mark_item_restocked item_id shelf_id shelf_index position_index quantity s
               = (Inr (error_obj m), s)))"
proof (intro conjI impI)
  assume v: "valid_restock_args item_id shelf_id shelf_index position_index quantity s"
  then obtain it layout where it: "map_of (inventory s) item_id = Some it"
    and l: "map_of (shelf_layouts s) shelf_id = Some layout"
    by (auto simp: valid_restock_args_def has_key_def split: option.splits)
  let ?s1 = "write_slot shelf_id (nat shelf_index) (nat position_index) item_id s"
  let ?r = "''Restocked on '' @ slot_name shelf_id shelf_index position_index"
  have it1: "map_of (inventory ?s1) item_id = Some it"
    using it by (simp add: write_slot_frame)
  obtain upd s2 where u: "update_inventory_count item_id quantity ?r ?s1 = (Inr upd, s2)"
    using update_inventory_count_known[OF it1] by blast
  have m: "mark_item_restocked item_id shelf_id shelf_index position_index quantity s
            = (Inr (JObj [(''message'',
                            JStr (''Successfully restocked '' @ str_int quantity @ '' of ''
                                  @ item_name it @ '' ('' @ item_id @ '') at ''
                                  @ slot_name shelf_id shelf_index position_index @ ''.'')),
                          (''inventory_update'', upd)]), s2)"
    using mark_valid[OF v it] u by simp
  have s2: "s2 = snd (update_inventory_count item_id quantity ?r ?s1)" using u by simp
  have sh: "map_of (shelf_layouts s2) shelf_id
            = Some (layout[nat shelf_index :=
                             (layout ! nat shelf_index)[nat position_index := Some item_id]])"
    unfolding s2 by (simp add: uic_frame write_slot_layout[OF l])
  have st: "map_of (inventory s2) item_id
            = Some (it\<lparr>item_stock := max 0 (item_stock it + quantity)\<rparr>)"
    unfolding s2 by (simp add: update_inventory_count_known[OF it1] AList.update_conv')
  from it l u m sh st
  show "\<exists>it upd s2 layout.
          map_of (inventory s) item_id = Some it
        \<and> map_of (shelf_layouts s) shelf_id = Some layout
        \<and> update_inventory_count item_id quantity ?r ?s1 = (Inr upd, s2)
        \<and> mark_item_restocked item_id shelf_id shelf_index position_index quantity s
            = (Inr (JObj [(''message'',
                            JStr (''Successfully restocked '' @ str_int quantity @ '' of ''
                                  @ item_name it @ '' ('' @ item_id @ '') at ''
                                  @ slot_name shelf_id shelf_index position_index @ ''.'')),
                          (''inventory_update'', upd)]), s2)
        \<and> map_of (shelf_layouts s2) shelf_id
            = Some (layout[nat shelf_index :=
                             (layout ! nat shelf_index)[nat position_index := Some item_id]])
        \<and> map_of (inventory s2) item_id
            = Some (it\<lparr>item_stock := max 0 (item_stock it + quantity)\<rparr>)"
    by blast
next
  assume "\<not> valid_restock_args item_id shelf_id shelf_index position_index quantity s"
  then show "\<exists>m. mark_item_restocked item_id shelf_id shelf_index position_index quantity s
               = (Inr (error_obj m), s)"
    by (rule mark_invalid)
qed

lemma initial_sku003:
  "map_of (inventory initial_store) ''SKU003''
     = Some \<lparr>item_name = ''Adventure Granola'', item_stock = 8,
             item_category = Some ''Breakfast'', item_location_id = Some ''A2'',
             item_position = Some 0\<rparr>"
  by (simp add: initial_store_def fixture_inventory_def)

lemma initial_a1:
  "map_of (shelf_layouts initial_store) ''A1''
     = Some [[Some ''SKU001'', Some ''SKU001'', Some ''SKU002''],
             [Some ''SKU001'', Some ''SKU002'', Some ''SKU002''],
             [Some ''SKU001'', Some ''SKU002'', None],
             [None, None, None]]"
  by (simp add: initial_store_def fixture_shelf_layouts_def)

lemma initial_a2:
  "map_of (shelf_layouts initial_store) ''A2''
     = Some [[Some ''SKU003'', Some ''SKU003'', Some ''SKU004''],
             [Some ''SKU003'', Some ''SKU004'', Some ''SKU004''],
             [Some ''SKU004'', None, None],
             [None, None, None]]"
  by (simp add: initial_store_def fixture_shelf_layouts_def)

theorem mark_item_restocked_all_or_nothing_witness:
  "valid_restock_args ''SKU003'' ''A1'' 3 2 4 initial_store
   \<and> (\<exists>upd. fst (mark_item_restocked ''SKU003'' ''A1'' 3 2 4 initial_store)
         = Inr (JObj [(''message'',
                         JStr ''Successfully restocked 4 of Adventure Granola (SKU003) at A1-S4-P3.''),
                       (''inventory_update'', upd)]))
   \<and> \<not> valid_restock_args ''SKU003'' ''A1'' 7 2 4 initial_store
   \<and> snd (mark_item_restocked ''SKU003'' ''A1'' 7 2 4 initial_store) = initial_store"
proof -
  have v: "valid_restock_args ''SKU003'' ''A1'' 3 2 4 initial_store"
    by (simp add: valid_restock_args_def has_key_def initial_sku003 initial_a1)
  have nv: "\<not> valid_restock_args ''SKU003'' ''A1'' 7 2 4 initial_store"
    by (simp add: valid_restock_args_def has_key_def initial_sku003 initial_a1)
  have n: "str_int 4 = ''4''" "slot_name ''A1'' 3 2 = ''A1-S4-P3''"
    by code_simp+
  from mark_item_restocked_all_or_nothing[of "''SKU003''" "''A1''" 3 2 4 initial_store] v
  have 1: "\<exists>upd. fst (mark_item_restocked ''SKU003'' ''A1'' 3 2 4 initial_store)
         = Inr (JObj [(''message'',
                         JStr ''Successfully restocked 4 of Adventure Granola (SKU003) at A1-S4-P3.''),
                       (''inventory_update'', upd)])"
    by (auto simp: initial_sku003 n)
  from mark_item_restocked_all_or_nothing[of "''SKU003''" "''A1''" 7 2 4 initial_store] nv
  have 2: "snd (mark_item_restocked ''SKU003'' ''A1'' 7 2 4 initial_store) = initial_store"
    by auto
  from v nv 1 2 show ?thesis by blast
qed

text \<open>
  Claim C3. For a known item and every integer change, \<^verbatim>\<open>update_inventory_count\<close> sets the
  stock to \<open>max 0 (old + change)\<close> and reports the old stock and that new stock. No tool
  call drives a stock below zero: every inventory entry after a call is an entry from
  before the call or has a stock that is not negative.
\<close>

theorem update_inventory_count_clamps_at_zero:
  assumes "map_of (inventory s) item_id = Some it"
  shows "update_inventory_count item_id delta reason s =
           (Inr (JObj [(''item_id'', JStr item_id), (''name'', JStr (item_name it)),
                       (''previous_stock'', JInt (item_stock it)),
                       (''new_stock'', JInt (max 0 (item_stock it + delta))),
                       (''change'', JInt delta), (''reason'', JStr reason)]),
            s\<lparr>inventory :=
                 AList.update item_id (it\<lparr>item_stock := max 0 (item_stock it + delta)\<rparr>)
                   (inventory s)\<rparr>)
         \<and> map_of (inventory (snd (update_inventory_count item_id delta reason s))) item_id
             = Some (it\<lparr>item_stock := max 0 (item_stock it + delta)\<rparr>)
         \<and> (\<forall>c draw u1 u2 e.
               e \<in> set (inventory (snd (call_tool c draw u1 u2 s)))
               \<longrightarrow> e \<in> set (inventory s) \<or> 0 \<le> item_stock (snd e))"
  using update_inventory_count_known[OF assms, of delta reason]
    stock_step_entries[OF call_tool_stock_step]
  by (simp add: AList.update_conv')

theorem update_inventory_count_clamps_at_zero_witness:
  "map_of (inventory initial_store) ''SKU003''
     = Some \<lparr>item_name = ''Adventure Granola'', item_stock = 8,
             item_category = Some ''Breakfast'', item_location_id = Some ''A2'',
             item_position = Some 0\<rparr>
   \<and> fst (update_inventory_count ''SKU003'' (- 50) ''Damaged'' initial_store)
       = Inr (JObj [(''item_id'', JStr ''SKU003''), (''name'', JStr ''Adventure Granola''),
                    (''previous_stock'', JInt 8), (''new_stock'', JInt 0),
                    (''change'', JInt (- 50)), (''reason'', JStr ''Damaged'')])
   \<and> map_of (inventory (snd (update_inventory_count ''SKU003'' (- 50) ''Damaged'' initial_store)))
         ''SKU003''
       = Some \<lparr>item_name = ''Adventure Granola'', item_stock = 0,
               item_category = Some ''Breakfast'', item_location_id = Some ''A2'',
               item_position = Some 0\<rparr>"
  using update_inventory_count_clamps_at_zero[OF initial_sku003, of "- 50" "''Damaged''"]
    initial_sku003
  by (simp add: AList.update_conv')


lemma find_item_location_unknown:
  "map_of (inventory s) item_id = None \<Longrightarrow>
     find_item_location item_id s
       = (Inr (error_obj (''Item ID '' @ item_id @ '' not found.'')), s)"
  by (simp add: find_item_location_def)

lemma error_obj_ex: "\<exists>m. error_obj x = error_obj m"
  by blast

text \<open>
  Claim C4. For an item identifier that is not in the inventory, each of the seven tool
  functions that take an item identifier returns normally with an error object and leaves
  the store (inventory, shelf layouts, storage requests) as it was.
\<close>

theorem unknown_item_gives_error_and_no_change:
  assumes "map_of (inventory s) item_id = None"
  shows "(\<exists>m. check_item_stock item_id s = (Inr (error_obj m), s))
       \<and> (\<exists>m. find_item_location item_id s = (Inr (error_obj m), s))
       \<and> (\<exists>m. request_item_from_storage item_id quantity target_location_id draw s
                = (Inr (error_obj m), s))
       \<and> (\<exists>m. update_inventory_count item_id quantity_change reason s = (Inr (error_obj m), s))
       \<and> (\<exists>m. mark_item_restocked item_id shelf_id shelf_index position_index quantity s
                = (Inr (error_obj m), s))
       \<and> (\<exists>m. log_damaged_item item_id quantity notes s = (Inr (error_obj m), s))
       \<and> (\<exists>m. identify_and_restock_item_from_image item_id quantity s
                = (Inr (error_obj m), s))"
proof (intro conjI)
  show "\<exists>m. check_item_stock item_id s = (Inr (error_obj m), s)"
    using assms by (simp add: check_item_stock_def error_obj_ex)
  show "\<exists>m. find_item_location item_id s = (Inr (error_obj m), s)"
    using assms by (simp add: find_item_location_unknown error_obj_ex)
  show "\<exists>m. request_item_from_storage item_id quantity target_location_id draw s
                = (Inr (error_obj m), s)"
    using assms by (simp add: request_item_from_storage_def has_key_def error_obj_ex)
  show "\<exists>m. update_inventory_count item_id quantity_change reason s = (Inr (error_obj m), s)"
    using assms by (simp add: update_inventory_count_unknown error_obj_ex)
  show "\<exists>m. mark_item_restocked item_id shelf_id shelf_index position_index quantity s
                = (Inr (error_obj m), s)"
    using assms by (simp add: mark_item_restocked_def has_key_def error_obj_ex)
  show "\<exists>m. log_damaged_item item_id quantity notes s = (Inr (error_obj m), s)"
    using assms by (simp add: log_damaged_item_def update_inventory_count_unknown error_obj_ex)
  show "\<exists>m. identify_and_restock_item_from_image item_id quantity s
                = (Inr (error_obj m), s)"
    using assms
    by (simp add: identify_and_restock_item_from_image_def find_item_location_unknown
        error_obj_ex)
qed

lemma initial_sku999: "map_of (inventory initial_store) ''SKU999'' = None"
  by (simp add: initial_store_def fixture_inventory_def)

theorem unknown_item_gives_error_and_no_change_witness:
  "map_of (inventory initial_store) ''SKU999'' = None
   \<and> check_item_stock ''SKU999'' initial_store
       = (Inr (error_obj ''Item ID SKU999 not found.''), initial_store)
   \<and> snd (log_damaged_item ''SKU999'' 3 None initial_store) = initial_store
   \<and> snd (mark_item_restocked ''SKU999'' ''A1'' 0 0 3 initial_store) = initial_store
   \<and> snd (identify_and_restock_item_from_image ''SKU999'' 3 initial_store) = initial_store"
proof -
  note w = unknown_item_gives_error_and_no_change[OF initial_sku999,
      of 3 "''A1''" 1234 3 "''Restock''" "''A1''" 0 0 None]
  have "check_item_stock ''SKU999'' initial_store
       = (Inr (error_obj ''Item ID SKU999 not found.''), initial_store)"
    by (simp add: check_item_stock_def initial_sku999)
  moreover have "snd (log_damaged_item ''SKU999'' 3 None initial_store) = initial_store"
    using w by auto
  moreover have "snd (mark_item_restocked ''SKU999'' ''A1'' 0 0 3 initial_store) = initial_store"
    using w by auto
  moreover have "snd (identify_and_restock_item_from_image ''SKU999'' 3 initial_store)
      = initial_store"
    using w by auto
  ultimately show ?thesis using initial_sku999 by blast
qed

lemma update_fresh_appends: "map_of al k = None \<Longrightarrow> AList.update k v al = al @ [(k, v)]"
  by (induction al) (auto split: if_splits)

text \<open>
  Claim C5, as the code has it. A successful \<^verbatim>\<open>request_item_from_storage\<close> returns the
  identifier \<^verbatim>\<open>REQ\<close> followed by the number drawn and stores the new request, with status
  Pending, under it by assignment. Requests under every other identifier stay as they
  were; when the identifier was not in the table, the new request is appended and all
  earlier requests stay as they were. No tool call removes an identifier from the table.
\<close>

theorem request_item_from_storage_stores_request:
  assumes "has_key (inventory s) item_id" and "has_key (shelf_layouts s) target_location_id"
    and "0 < quantity"
  shows "(let request_id = ''REQ'' @ str_int draw;
              new_request = \<lparr>req_item_id = item_id, req_quantity = quantity,
                              req_target_location = target_location_id,
                              req_status = ''Pending''\<rparr>;
              answer = request_item_from_storage item_id quantity target_location_id draw s
          in (\<exists>m. fst answer = Inr (JObj [(''request_id'', JStr request_id),
                                           (''status'', JStr ''Pending''), (''message'', JStr m)]))
             \<and> storage_requests (snd answer)
                 = AList.update request_id new_request (storage_requests s)
             \<and> map_of (storage_requests (snd answer)) request_id = Some new_request
             \<and> (\<forall>k. k \<noteq> request_id \<longrightarrow>
                    map_of (storage_requests (snd answer)) k = map_of (storage_requests s) k)
             \<and> (\<not> has_key (storage_requests s) request_id \<longrightarrow>
                    storage_requests (snd answer)
                      = storage_requests s @ [(request_id, new_request)])
             \<and> (\<forall>c d u1 u2 k. has_key (storage_requests s) k \<longrightarrow>
                    has_key (storage_requests (snd (call_tool c d u1 u2 s))) k))"
proof -
  from assms(1) obtain it where it: "map_of (inventory s) item_id = Some it"
    by (auto simp: has_key_def)
  show ?thesis
    using assms it call_tool_keeps_requests[of s]
    by (auto simp: request_item_from_storage_def Let_def subscript_def AList.update_conv'
        update_fresh_appends has_key_def)
qed


lemma str_int_1234: "str_int 1234 = ''1234''"
  by code_simp

lemma initial_keys:
  "has_key (inventory initial_store) ''SKU003''" "has_key (inventory initial_store) ''SKU010''"
  "has_key (shelf_layouts initial_store) ''A2''" "has_key (shelf_layouts initial_store) ''B1''"
  by (simp_all add: has_key_def initial_store_def fixture_inventory_def fixture_shelf_layouts_def)

lemma pending_store_requests:
  "storage_requests pending_store
     = [(''REQ1234'', \<lparr>req_item_id = ''SKU003'', req_quantity = 4,
                        req_target_location = ''A2'', req_status = ''Pending''\<rparr>)]"
  using initial_keys
  by (simp add: pending_store_def request_item_from_storage_def Let_def str_int_1234
      subscript_def has_key_def initial_store_def split: sum.splits option.splits)

lemma pending_store_tables:
  "inventory pending_store = inventory initial_store"
  "shelf_layouts pending_store = shelf_layouts initial_store"
  by (simp_all add: pending_store_def request_frame)

theorem request_item_from_storage_stores_request_witness:
  "has_key (inventory initial_store) ''SKU003''
   \<and> has_key (shelf_layouts initial_store) ''A2''
   \<and> (0::int) < 4
   \<and> storage_requests (snd (request_item_from_storage ''SKU003'' 4 ''A2'' 1234 initial_store))
       = [(''REQ1234'', \<lparr>req_item_id = ''SKU003'', req_quantity = 4,
                          req_target_location = ''A2'', req_status = ''Pending''\<rparr>)]"
  using request_item_from_storage_stores_request[of initial_store "''SKU003''" "''A2''" 4 1234]
    initial_keys
  by (simp add: Let_def str_int_1234 initial_store_def)

text \<open>
  Claim C5 as it is worded fails when the draw repeats: the second request is given the
  identifier of the first, which is then no longer the request that was created.
\<close>

theorem request_id_collision_counterexample:
  "map_of (storage_requests pending_store) ''REQ1234''
     = Some \<lparr>req_item_id = ''SKU003'', req_quantity = 4,
             req_target_location = ''A2'', req_status = ''Pending''\<rparr>
   \<and> obj_get (case fst (request_item_from_storage ''SKU010'' 7 ''B1'' 1234 pending_store) of
                 Inr j \<Rightarrow> j | Inl e \<Rightarrow> JNull) ''request_id'' = Some (JStr ''REQ1234'')
   \<and> map_of (storage_requests
                (snd (request_item_from_storage ''SKU010'' 7 ''B1'' 1234 pending_store)))
         ''REQ1234''
       = Some \<lparr>req_item_id = ''SKU010'', req_quantity = 7,
               req_target_location = ''B1'', req_status = ''Pending''\<rparr>"
proof -
  have k: "has_key (inventory pending_store) ''SKU010''"
    "has_key (shelf_layouts pending_store) ''B1''"
    using initial_keys by (simp_all add: pending_store_tables)
  obtain it where it: "map_of (inventory pending_store) ''SKU010'' = Some it"
    using k(1) by (auto simp: has_key_def)
  show ?thesis
    using k it
    by (simp add: request_item_from_storage_def Let_def str_int_1234 subscript_def
        pending_store_requests)
qed

text \<open>
  Claim C9. For an existing request and all values of the two draws, one call of
  \<^verbatim>\<open>check_delivery_status\<close> leaves the status as it was or moves it one step along
  Pending, In Transit, Delivered: never backwards, never from Pending to Delivered, and
  Delivered stays. Nothing else in the store changes.
\<close>

theorem check_delivery_status_advances_at_most_one_step:
  assumes "map_of (storage_requests s) request_id = Some r"
  shows "(let new_status =
                (if req_status r = ''Pending'' \<and> 0.7 < u1 then ''In Transit''
                 else if req_status r = ''In Transit'' \<and> 0.5 < u2 then ''Delivered''
                 else req_status r);
              answer = check_delivery_status request_id u1 u2 s
          in map_of (storage_requests (snd answer)) request_id
               = Some (r\<lparr>req_status := new_status\<rparr>)
             \<and> fst answer
                 = Inr (JObj [(''request_id'', JStr request_id), (''status'', JStr new_status),
                              (''details'', request_json (r\<lparr>req_status := new_status\<rparr>))])
             \<and> (new_status = req_status r
                  \<or> (req_status r = ''Pending'' \<and> new_status = ''In Transit'')
                  \<or> (req_status r = ''In Transit'' \<and> new_status = ''Delivered''))
             \<and> status_rank (req_status r) \<le> status_rank new_status
             \<and> status_rank new_status \<le> status_rank (req_status r) + 1
             \<and> (req_status r = ''Delivered'' \<longrightarrow> new_status = ''Delivered'')
             \<and> (\<forall>k. k \<noteq> request_id \<longrightarrow>
                    map_of (storage_requests (snd answer)) k = map_of (storage_requests s) k)
             \<and> inventory (snd answer) = inventory s
             \<and> shelf_layouts (snd answer) = shelf_layouts s)"
  using assms
  by (simp add: check_delivery_status_def Let_def AList.update_conv' status_rank_def)

theorem check_delivery_status_advances_at_most_one_step_witness:
  "map_of (storage_requests pending_store) ''REQ1234''
     = Some \<lparr>req_item_id = ''SKU003'', req_quantity = 4,
             req_target_location = ''A2'', req_status = ''Pending''\<rparr>
   \<and> map_of (storage_requests (snd (check_delivery_status ''REQ1234'' 0.9 0.9 pending_store)))
         ''REQ1234''
       = Some \<lparr>req_item_id = ''SKU003'', req_quantity = 4,
               req_target_location = ''A2'', req_status = ''In Transit''\<rparr>
   \<and> map_of (storage_requests (snd (check_delivery_status ''REQ1234'' 0.5 0.9 pending_store)))
         ''REQ1234''
       = Some \<lparr>req_item_id = ''SKU003'', req_quantity = 4,
               req_target_location = ''A2'', req_status = ''Pending''\<rparr>"
proof -
  have p: "map_of (storage_requests pending_store) ''REQ1234''
     = Some \<lparr>req_item_id = ''SKU003'', req_quantity = 4,
             req_target_location = ''A2'', req_status = ''Pending''\<rparr>"
    by (simp add: pending_store_requests)
  from check_delivery_status_advances_at_most_one_step[OF p, of "0.9" "0.9"]
    check_delivery_status_advances_at_most_one_step[OF p, of "0.5" "0.9"] p
  show ?thesis by (simp add: Let_def)
qed

text \<open>
  Claim C10. The five querying functions return the store they were given, for every
  input; \<^verbatim>\<open>check_delivery_status\<close> does not (polling a pending request with a high draw
  changes the request table).
\<close>

theorem read_only_tools_leave_store_unchanged:
  "snd (check_item_stock item_id s) = s
   \<and> snd (find_item_location item_id s) = s
   \<and> snd (get_shelf_layout shelf_id s) = s
   \<and> snd (get_items_needing_restock category min_stock_level s) = s
   \<and> snd (get_store_layout_overview s) = s
   \<and> storage_requests (snd (check_delivery_status ''REQ1234'' 0.9 0.9 pending_store))
       \<noteq> storage_requests pending_store"
  by (simp add: read_only_state check_delivery_status_def pending_store_requests Let_def)

theorem read_only_tools_leave_store_unchanged_witness:
  "snd (check_item_stock ''SKU003'' initial_store) = initial_store
   \<and> snd (find_item_location ''SKU999'' initial_store) = initial_store
   \<and> snd (get_shelf_layout ''A1'' initial_store) = initial_store
   \<and> snd (get_items_needing_restock None 9 initial_store) = initial_store
   \<and> snd (get_store_layout_overview initial_store) = initial_store"
  using read_only_tools_leave_store_unchanged[of "''SKU003''" initial_store "''A1''" None 9]
    read_only_tools_leave_store_unchanged[of "''SKU999''" initial_store "''A1''" None 9]
  by simp


text \<open>
  Claim C8. For a non-empty \<^verbatim>\<open>image_data\<close> that names a known item with a location, the
  scan resolves the slot as \<open>resolved_slot\<close> says: the first slot in scanning order that
  holds the item, else the first empty slot. With no such slot (or no such shelf) the
  answer is an error object and the store is unchanged; otherwise the function calls
  \<^verbatim>\<open>mark_item_restocked\<close> with these coordinates and the given quantity and wraps its
  answer.
\<close>

theorem identify_resolves_first_match_else_first_empty:
  assumes "image_data \<noteq> []"
    and "map_of (inventory s) image_data = Some it"
    and "item_location_id it = Some shelf_id" and "shelf_id \<noteq> []"
  shows "identify_and_restock_item_from_image image_data quantity s =
     (case (case map_of (shelf_layouts s) shelf_id of
              Some layout \<Rightarrow> resolved_slot image_data layout
            | None \<Rightarrow> None) of
        None \<Rightarrow>
          (Inr (error_obj (''Could not determine specific shelf/position for item ''
                           @ image_data @ '' on shelf '' @ shelf_id
                           @ ''. Layout might need update.'')), s)
      | Some (r, p) \<Rightarrow>
          (case mark_item_restocked image_data shelf_id (int r) (int p) quantity s of
             (Inl e, s1) \<Rightarrow> (Inl e, s1)
           | (Inr restock_data, s1) \<Rightarrow>
               if is_error restock_data then
                 (Inr (error_obj (''Failed to restock after identification: ''
                                  @ error_text restock_data)), s1)
               else
                 (Inr (JObj [(''message'',
                                JStr (''Simulated vision identification and restocking ''
                                      @ ''complete for '' @ image_data @ ''.'')),
                             (''restock_details'', restock_data)]), s1)))"
  using assms by (rule identify_resolves)

lemma resolved_examples:
  "resolved_slot ''SKU003''
     [[Some ''SKU003'', Some ''SKU003'', Some ''SKU004''],
      [Some ''SKU003'', Some ''SKU004'', Some ''SKU004''],
      [Some ''SKU004'', None, None],
      [None, None, None]] = Some (0, 0)"
  "resolved_slot ''SKU003'' [[Some ''SKU001'', None], [None, Some ''SKU003'']] = Some (1, 1)"
  "resolved_slot ''SKU003'' [[Some ''SKU001'', Some ''SKU002''], [Some ''SKU001'', None]]
     = Some (1, 1)"
  "resolved_slot ''SKU003'' [[Some ''SKU001'', Some ''SKU002'']] = None"
  by (simp_all add: resolved_slot_def first_slot_holding_Cons)

theorem identify_resolves_first_match_else_first_empty_witness:
  "''SKU003'' \<noteq> []
   \<and> map_of (inventory initial_store) ''SKU003''
       = Some \<lparr>item_name = ''Adventure Granola'', item_stock = 8,
               item_category = Some ''Breakfast'', item_location_id = Some ''A2'',
               item_position = Some 0\<rparr>
   \<and> resolved_slot ''SKU003''
        [[Some ''SKU003'', Some ''SKU003'', Some ''SKU004''],
         [Some ''SKU003'', Some ''SKU004'', Some ''SKU004''],
         [Some ''SKU004'', None, None],
         [None, None, None]] = Some (0, 0)
   \<and> snd (identify_and_restock_item_from_image ''SKU003'' 4 initial_store)
       = snd (mark_item_restocked ''SKU003'' ''A2'' 0 0 4 initial_store)"
  using identify_resolves_first_match_else_first_empty[of "''SKU003''" initial_store
      "\<lparr>item_name = ''Adventure Granola'', item_stock = 8,
               item_category = Some ''Breakfast'', item_location_id = Some ''A2'',
               item_position = Some 0\<rparr>" "''A2''" 4]
  by (simp add: initial_sku003 initial_a2 resolved_examples split: prod.splits sum.splits)

text \<open>
  Claim C6 does not hold of \<^verbatim>\<open>azure_store_chat\<close>. The handler attached to the stream and the
  body of the loop both enter the text of a delta in the list they share: the callback
  sets the most recent plain assistant entry to the text accumulated so far, then the
  loop appends the fragment to the last entry. On the three deltas \<^verbatim>\<open>Hel\<close>, \<^verbatim>\<open>lo wor\<close>, \<^verbatim>\<open>ld\<close>
  under one message identifier the turn ends with the entry \<^verbatim>\<open>Hello worldld\<close>, not
  \<^verbatim>\<open>Hello world\<close>; a plain assistant entry of an earlier turn is overwritten with the first
  fragment; and the transcripts yielded on the way show \<^verbatim>\<open>HelHel\<close> and \<^verbatim>\<open>Hello worlo wor\<close>.
  Each of the two alone gives \<^verbatim>\<open>Hello world\<close> (lemmas \<open>loop_body_alone_hello\<close> and
  \<open>handler_alone_hello\<close>); lemma \<open>hello_entered_twice\<close> has the result for every environment,
  message identifier and history.
\<close>

theorem message_deltas_entered_twice:
  "snd (stream_turn demo_env (hello_deltas ''m1'') Finished [user_entry ''hi''])
     = [user_entry ''hi'', assistant_entry ''Hello worldld'']
   \<and> snd (stream_turn demo_env (hello_deltas ''m1'') Finished
            [assistant_entry ''old reply'', user_entry ''hi''])
     = [assistant_entry ''Hel'', user_entry ''hi'', assistant_entry ''Hello worldld'']
   \<and> fst (stream_turn demo_env (hello_deltas ''m1'') Finished [user_entry ''hi''])
     = [to_dicts [user_entry ''hi'', assistant_entry ''HelHel''],
        to_dicts [user_entry ''hi'', assistant_entry ''Hello worlo wor''],
        to_dicts [user_entry ''hi'', assistant_entry ''Hello worldld''],
        to_dicts [user_entry ''hi'', assistant_entry ''Hello worldld'']]"
  by (simp add: stream_turn_def hello_deltas_def Let_def turn_item_def on_message_delta_def
      fresh_handler_def delta_text_def append_delta_def is_plain_assistant_def
      has_metadata_def user_entry_def assistant_entry_def)

text \<open>
  Claim C7. When the iteration over the stream raises, the final conversation is the
  conversation reached by the items before the failure, whether the body of the loop ran
  to its end on them or raised, followed by exactly one assistant entry that reports the
  failure; a stream that ends normally adds nothing. Seen from outside: the last transcript
  the generator yields is the conversation reached with that one entry appended, and the
  transcripts yielded before it are those of the same items on a stream that ends
  normally.
\<close>

theorem stream_failure_appends_one_error_entry:
  "snd (stream_turn env items (Failed ex) conversation0)
     = conversation (snd (snd (consume env items
          (fresh_handler, \<lparr>conversation = conversation0, active_tool_calls = []\<rparr>))))
       @ [stream_error_entry ex]
   \<and> snd (stream_turn env items Finished conversation0)
       = conversation (snd (snd (consume env items
            (fresh_handler, \<lparr>conversation = conversation0, active_tool_calls = []\<rparr>))))
   \<and> msg_role (stream_error_entry ex) = ''assistant''
   \<and> last (fst (stream_turn env items (Failed ex) conversation0))
       = to_dicts (conversation (snd (snd (consume env items
            (fresh_handler, \<lparr>conversation = conversation0, active_tool_calls = []\<rparr>)))))
         @ [convert_chatmessage_to_dict (stream_error_entry ex)]
   \<and> butlast (fst (stream_turn env items (Failed ex) conversation0))
       = butlast (fst (stream_turn env items Finished conversation0))
   \<and> (\<not> current_time - last_message_sent_time < 2 \<and> strip user_message \<noteq> [] \<longrightarrow>
        last (fst (azure_store_chat env current_time last_message_sent_time Sent items
                     (Failed ex) user_message history))
          = last (fst (azure_store_chat env current_time last_message_sent_time Sent items
                         Finished user_message history))
            @ [convert_chatmessage_to_dict (stream_error_entry ex)]
        \<and> butlast (fst (azure_store_chat env current_time last_message_sent_time Sent items
                          (Failed ex) user_message history))
          = butlast (fst (azure_store_chat env current_time last_message_sent_time Sent items
                            Finished user_message history)))"
  by (simp add: stream_turn_def azure_store_chat_def Let_def to_dicts_def butlast_append
      stream_error_entry_def)

theorem stream_failure_appends_one_error_entry_witness:
  "\<not> (10::real) - 0 < 2 \<and> strip ''hi'' \<noteq> []
   \<and> last (fst (azure_store_chat demo_env 10 0 Sent [null_arguments_event]
                   (Failed ''boom'') ''hi'' []))
       = last (fst (azure_store_chat demo_env 10 0 Sent [null_arguments_event]
                      Finished ''hi'' []))
         @ [\<lparr>msg_role = ''assistant'',
             msg_content = JStr ''An error occurred while processing your request: boom'',
             msg_metadata = Some []\<rparr>]
   \<and> fst (azure_store_chat demo_env 10 0 Sent [null_arguments_event] (Failed ''boom'') ''hi'' [])
       = [[\<lparr>msg_role = ''user'', msg_content = JStr ''hi'', msg_metadata = Some []\<rparr>],
          [\<lparr>msg_role = ''user'', msg_content = JStr ''hi'', msg_metadata = Some []\<rparr>,
           pending_bubble ''tool-c1'',
           \<lparr>msg_role = ''assistant'',
             msg_content = JStr ''An error occurred while processing your request: boom'',
             msg_metadata = Some []\<rparr>]]"
proof -
  have s: "strip ''hi'' \<noteq> []" by code_simp
  have e: "convert_chatmessage_to_dict (stream_error_entry ''boom'')
            = \<lparr>msg_role = ''assistant'',
             msg_content = JStr ''An error occurred while processing your request: boom'',
             msg_metadata = Some []\<rparr>"
    by (simp add: convert_chatmessage_to_dict_def stream_error_entry_def has_metadata_def)
  have t: "turn_item demo_env null_arguments_event
             (fresh_handler, \<lparr>conversation = [\<lparr>msg_role = ''user'', msg_content = JStr ''hi'',
                                                msg_metadata = None\<rparr>],
                               active_tool_calls = []\<rparr>)
           = (Raised TypeError, fresh_handler,
              \<lparr>conversation = [\<lparr>msg_role = ''user'', msg_content = JStr ''hi'',
                                 msg_metadata = None\<rparr>, pending_bubble ''tool-c1''],
               active_tool_calls =
                 [(''c1'', \<lparr>ti_name = ''check_item_stock'', ti_arguments = [],
                            ti_status = ''pending''\<rparr>)]\<rparr>)"
    by (simp add: turn_item_def null_arguments_event_def null_arguments_call_def
        delta_tool_call_def start_tool_call_def add_arguments_def has_key_def
        create_tool_bubble_def bubble_id_def is_bubble_def Let_def pending_bubble_def
        demo_titles)
  have y: "fst (azure_store_chat demo_env 10 0 Sent [null_arguments_event] (Failed ''boom'')
                  ''hi'' [])
       = [[\<lparr>msg_role = ''user'', msg_content = JStr ''hi'', msg_metadata = Some []\<rparr>],
          [\<lparr>msg_role = ''user'', msg_content = JStr ''hi'', msg_metadata = Some []\<rparr>,
           pending_bubble ''tool-c1'',
           \<lparr>msg_role = ''assistant'',
             msg_content = JStr ''An error occurred while processing your request: boom'',
             msg_metadata = Some []\<rparr>]]"
    using s
    by (simp add: azure_store_chat_def stream_turn_def Let_def t to_dicts_def
        convert_chatmessage_to_dict_def has_metadata_def stream_error_entry_def
        pending_bubble_def)
  from stream_failure_appends_one_error_entry[of demo_env "[null_arguments_event]"
      "''boom''" "[]" 10 0 "''hi''" "[]"] s y
  show ?thesis unfolding e by simp
qed

end
